theory Spec2Isabelle
  imports Main "HOL-Library.Word"
begin

unbundle bit_operations_syntax

section \<open>Android binary XML: the reader of \<open>binary_xml.cpp\<close>\<close>

text \<open>
  The buffer \<open>content_\<close> is a \<open>std::vector<std::byte>\<close>: a list of 8-bit words. A
  \<open>std::string\<close> is a sequence of bytes too, written here as a \<open>string\<close> (a list of
  8-bit characters), so that the literals of the source stay readable.

  The source never checks an index: \<open>&data[index]\<close> followed by \<open>memcpy\<close>, the pointer
  arithmetic on \<open>content_.data()\<close> and \<open>strings[i]\<close> all go wherever the index says.
  C++ gives such an access outside the container no meaning. The model makes each of them a
  value of type \<open>fault\<close>, so that every place where the source leaves the buffer or the
  pool is a visible branch:
  \<^item> \<open>ReadPastEnd\<close>: bytes are read at an index outside \<open>content_\<close>;
  \<^item> \<open>PoolIndexOutOfRange\<close>: \<open>strings[i]\<close> with \<open>i \<ge> strings.size()\<close>;
  \<^item> \<open>RangeError\<close>: the \<open>std::range_error\<close> that
    \<open>std::wstring_convert::to_bytes\<close> throws on ill-formed UTF-16.
\<close>

type_synonym byte = "8 word"
type_synonym bytes = "byte list"
type_synonym strings = "string list"

datatype fault = ReadPastEnd | PoolIndexOutOfRange | RangeError

definition byte_char :: "byte \<Rightarrow> char" where
  "byte_char b = Char (bit b 0) (bit b 1) (bit b 2) (bit b 3) (bit b 4) (bit b 5) (bit b 6) (bit b 7)"

definition char_byte :: "char \<Rightarrow> byte" where
  "char_byte c = of_nat (of_char c)"

subsection \<open>Constants of \<open>resource_types.h\<close>\<close>

text \<open>
  Modelled from the spec: \<open>resource_types.h\<close> is not among the sources. Section 6 of the
  specification gives the file magic, the string-pool chunk id, the UTF-8 flag bit, the
  chunk tags and the two boolean raw values. The attribute marker and the attribute type
  tags, which the specification names without their values, are those of Android's
  \<open>ResourceTypes.h\<close>, the header the source cites as its reference.
\<close>

definition XML_IDENTIFIER :: "32 word" where "XML_IDENTIFIER = 0x00080003"
definition XML_STRING_TABLE :: "16 word" where "XML_STRING_TABLE = 0x0001"
definition RES_FLAG_UTF8 :: "32 word" where "RES_FLAG_UTF8 = push_bit 8 1"
definition XML_ATTRS_MARKER :: "32 word" where "XML_ATTRS_MARKER = 0x00140014"

definition RES_XML_START_NAMESPACE_TYPE :: "16 word" where "RES_XML_START_NAMESPACE_TYPE = 0x0100"
definition RES_XML_END_NAMESPACE_TYPE :: "16 word" where "RES_XML_END_NAMESPACE_TYPE = 0x0101"
definition RES_XML_START_ELEMENT_TYPE :: "16 word" where "RES_XML_START_ELEMENT_TYPE = 0x0102"
definition RES_XML_END_ELEMENT_TYPE :: "16 word" where "RES_XML_END_ELEMENT_TYPE = 0x0103"
definition RES_XML_CDATA_TYPE :: "16 word" where "RES_XML_CDATA_TYPE = 0x0104"
definition RES_XML_RESOURCE_MAP_TYPE :: "16 word" where "RES_XML_RESOURCE_MAP_TYPE = 0x0180"

definition TYPE_NULL :: byte where "TYPE_NULL = 0x00"
definition TYPE_REFERENCE :: byte where "TYPE_REFERENCE = 0x01"
definition TYPE_ATTRIBUTE :: byte where "TYPE_ATTRIBUTE = 0x02"
definition TYPE_STRING :: byte where "TYPE_STRING = 0x03"
definition TYPE_FLOAT :: byte where "TYPE_FLOAT = 0x04"
definition TYPE_DIMENSION :: byte where "TYPE_DIMENSION = 0x05"
definition TYPE_FRACTION :: byte where "TYPE_FRACTION = 0x06"
definition TYPE_DYNAMIC_REFERENCE :: byte where "TYPE_DYNAMIC_REFERENCE = 0x07"
definition TYPE_INT_DEC :: byte where "TYPE_INT_DEC = 0x10"
definition TYPE_INT_HEX :: byte where "TYPE_INT_HEX = 0x11"
definition TYPE_INT_BOOLEAN :: byte where "TYPE_INT_BOOLEAN = 0x12"

definition RES_VALUE_TRUE :: "32 word" where "RES_VALUE_TRUE = 0xFFFFFFFF"
definition RES_VALUE_FALSE :: "32 word" where "RES_VALUE_FALSE = 0x00000000"

lemmas resource_types =
  XML_IDENTIFIER_def XML_STRING_TABLE_def RES_FLAG_UTF8_def XML_ATTRS_MARKER_def
  RES_XML_START_NAMESPACE_TYPE_def RES_XML_END_NAMESPACE_TYPE_def
  RES_XML_START_ELEMENT_TYPE_def RES_XML_END_ELEMENT_TYPE_def RES_XML_CDATA_TYPE_def
  RES_XML_RESOURCE_MAP_TYPE_def
  TYPE_NULL_def TYPE_REFERENCE_def TYPE_ATTRIBUTE_def TYPE_STRING_def TYPE_FLOAT_def
  TYPE_DIMENSION_def TYPE_FRACTION_def TYPE_DYNAMIC_REFERENCE_def TYPE_INT_DEC_def
  TYPE_INT_HEX_def TYPE_INT_BOOLEAN_def RES_VALUE_TRUE_def RES_VALUE_FALSE_def

subsection \<open>\<open>readBytesAtIndex\<close>\<close>

text \<open>
  \<open>readBytesAtIndex<T>(data, index)\<close> copies \<open>sizeof(T)\<close> bytes from \<open>&data[index]\<close>
  into a \<open>T\<close> and advances \<open>index\<close> by \<open>sizeof(T)\<close>. The targets are little-endian,
  so the first byte is the least significant. The model returns the value read together
  with the advanced index.

  Indices are \<open>uint64_t\<close> and \<open>size_t\<close> values in the source (\<open>size_t\<close> taken as 64
  bits wide); they are natural numbers here. This is exact as long as no sum reaches
  \<open>2^64\<close>: an index that a read accepts is at most the length of the buffer, and what the
  source adds to an index between two reads is a 32-bit value at most.
\<close>

fun le_value :: "bytes \<Rightarrow> nat" where
  "le_value [] = 0"
| "le_value (b # bs) = unat b + 256 * le_value bs"

definition readBytesAtIndex :: "nat \<Rightarrow> bytes \<Rightarrow> nat \<Rightarrow> fault + (nat \<times> nat)" where
  "readBytesAtIndex size_of data index =
     (if index + size_of \<le> length data
      then Inr (le_value (take size_of (drop index data)), index + size_of)
      else Inl ReadPastEnd)"

definition read_uint8 :: "bytes \<Rightarrow> nat \<Rightarrow> fault + (8 word \<times> nat)" where
  "read_uint8 data index =
     (case readBytesAtIndex 1 data index of
        Inl e \<Rightarrow> Inl e
      | Inr (v, index') \<Rightarrow> Inr (of_nat v, index'))"

definition read_uint16 :: "bytes \<Rightarrow> nat \<Rightarrow> fault + (16 word \<times> nat)" where
  "read_uint16 data index =
     (case readBytesAtIndex 2 data index of
        Inl e \<Rightarrow> Inl e
      | Inr (v, index') \<Rightarrow> Inr (of_nat v, index'))"

definition read_uint32 :: "bytes \<Rightarrow> nat \<Rightarrow> fault + (32 word \<times> nat)" where
  "read_uint32 data index =
     (case readBytesAtIndex 4 data index of
        Inl e \<Rightarrow> Inl e
      | Inr (v, index') \<Rightarrow> Inr (of_nat v, index'))"

text \<open>
  \<open>readBytesAtIndex<int32_t>\<close> reads the same four bytes; the value is the 32-bit word
  taken as two's complement (\<open>sint\<close>).
\<close>

definition read_int32 :: "bytes \<Rightarrow> nat \<Rightarrow> fault + (int \<times> nat)" where
  "read_int32 data index =
     (case read_uint32 data index of
        Inl e \<Rightarrow> Inl e
      | Inr (v, index') \<Rightarrow> Inr (sint v, index'))"

subsection \<open>\<open>BinaryXmlHeader\<close>\<close>

text \<open>
  The header is read through \<open>reinterpret_cast<BinaryXmlHeader const *>(content_.data())\<close>:
  each field access loads the bytes at the field's offset in the struct. With the natural
  alignment of its members the struct has no padding:
  \<open>xmlMagicNumber\<close> at 0, \<open>reservedBytes\<close> at 4, \<open>stringTableIdentifier\<close> at 8,
  \<open>headerSize\<close> at 10, \<open>chunkSize\<close> at 12, \<open>numStrings\<close> at 16, \<open>numStyles\<close> at 20,
  \<open>flags\<close> at 24, \<open>stringsOffset\<close> at 28, \<open>stylesOffset\<close> at 32, and
  \<open>sizeof(BinaryXmlHeader) = 36\<close>.
\<close>

definition sizeof_BinaryXmlHeader :: nat where
  "sizeof_BinaryXmlHeader = 36"

definition header_xmlMagicNumber :: "bytes \<Rightarrow> fault + 32 word" where
  "header_xmlMagicNumber content = map_sum id fst (read_uint32 content 0)"

definition header_stringTableIdentifier :: "bytes \<Rightarrow> fault + 16 word" where
  "header_stringTableIdentifier content = map_sum id fst (read_uint16 content 8)"

definition header_chunkSize :: "bytes \<Rightarrow> fault + 32 word" where
  "header_chunkSize content = map_sum id fst (read_uint32 content 12)"

definition header_numStrings :: "bytes \<Rightarrow> fault + 32 word" where
  "header_numStrings content = map_sum id fst (read_uint32 content 16)"

definition header_flags :: "bytes \<Rightarrow> fault + 32 word" where
  "header_flags content = map_sum id fst (read_uint32 content 24)"

subsection \<open>\<open>BinaryXml::getXmlChunkOffset\<close>\<close>

text \<open>
  The three checks in the source's order; the two sizes are compared and subtracted as
  unsigned 64-bit values. Behind the guard \<open>content_.size() \<le> chunkSize\<close> neither
  subtraction can wrap, so the natural-number subtraction is the source's.
\<close>

definition getXmlChunkOffset :: "bytes \<Rightarrow> fault + nat" where
  "getXmlChunkOffset content =
     (case header_xmlMagicNumber content of
        Inl e \<Rightarrow> Inl e
      | Inr xmlMagicNumber \<Rightarrow>
          if xmlMagicNumber \<noteq> XML_IDENTIFIER then Inr 0
          else
            (case header_stringTableIdentifier content of
               Inl e \<Rightarrow> Inl e
             | Inr stringTableIdentifier \<Rightarrow>
                 if stringTableIdentifier \<noteq> XML_STRING_TABLE then Inr 0
                 else
                   (case header_chunkSize content of
                      Inl e \<Rightarrow> Inl e
                    | Inr chunkSize \<Rightarrow>
                        if length content \<le> unat chunkSize then Inr 0
                        else Inr (length content - (length content - unat chunkSize)))))"

subsection \<open>\<open>BinaryXml::readStrings\<close>\<close>

text \<open>
  \<open>std::string(ptr, n)\<close> and \<open>std::u16string(ptr, n)\<close> copy \<open>n\<close> units starting at a
  pointer into the buffer; with \<open>n = 0\<close> nothing is read. \<open>readSpan\<close> is that copy for a
  run of \<open>n\<close> bytes.
\<close>

definition readSpan :: "bytes \<Rightarrow> nat \<Rightarrow> nat \<Rightarrow> fault + bytes" where
  "readSpan data index n =
     (if n = 0 then Inr []
      else if index + n \<le> length data then Inr (take n (drop index data))
      else Inl ReadPastEnd)"

text \<open>The bytes of a \<open>char16_t\<close> run, little-endian, as 16-bit code units.\<close>

fun code_units :: "bytes \<Rightarrow> 16 word list" where
  "code_units (lo # hi # bs) = of_nat (unat lo + 256 * unat hi) # code_units bs"
| "code_units bs = []"

text \<open>
  \<open>std::wstring_convert<std::codecvt_utf8_utf16<char16_t>, char16_t>::to_bytes\<close> of the
  C++ standard library: UTF-16 code units to UTF-8 bytes. A surrogate pair becomes one
  four-byte sequence; an unpaired surrogate makes the conversion fail, and \<open>to_bytes\<close>
  throws \<open>std::range_error\<close>.
\<close>

definition utf8_encode :: "nat \<Rightarrow> bytes" where
  "utf8_encode c =
     (if c < 0x80 then [of_nat c]
      else if c < 0x800 then [of_nat (0xC0 + c div 0x40), of_nat (0x80 + c mod 0x40)]
      else if c < 0x10000 then
        [of_nat (0xE0 + c div 0x1000), of_nat (0x80 + c div 0x40 mod 0x40),
         of_nat (0x80 + c mod 0x40)]
      else
        [of_nat (0xF0 + c div 0x40000), of_nat (0x80 + c div 0x1000 mod 0x40),
         of_nat (0x80 + c div 0x40 mod 0x40), of_nat (0x80 + c mod 0x40)])"

fun to_bytes :: "16 word list \<Rightarrow> fault + bytes" where
  "to_bytes [] = Inr []"
| "to_bytes (u # us) =
     (if 0xD800 \<le> unat u \<and> unat u < 0xDC00 then
        (case us of
           [] \<Rightarrow> Inl RangeError
         | l # us' \<Rightarrow>
             if 0xDC00 \<le> unat l \<and> unat l < 0xE000 then
               (case to_bytes us' of
                  Inl e \<Rightarrow> Inl e
                | Inr bs \<Rightarrow>
                    Inr (utf8_encode (0x10000 + (unat u - 0xD800) * 0x400 + (unat l - 0xDC00)) @ bs))
             else Inl RangeError)
      else if 0xDC00 \<le> unat u \<and> unat u < 0xE000 then Inl RangeError
      else
        (case to_bytes us of
           Inl e \<Rightarrow> Inl e
         | Inr bs \<Rightarrow> Inr (utf8_encode (unat u) @ bs)))"

text \<open>
  The body of the second loop of \<open>readStrings\<close>: one pool entry, found at
  \<open>startStringsOffset + offset\<close>. In the UTF-8 branch the length is the byte read at that
  index, and the characters start two bytes after it. In the UTF-16 branch the length is
  the 16-bit value read there, counted in code units of two bytes each.
\<close>

definition readString :: "bytes \<Rightarrow> nat \<Rightarrow> bool \<Rightarrow> 32 word \<Rightarrow> fault + string" where
  "readString content startStringsOffset isUtf8Encoded offset =
     (if isUtf8Encoded then
        (let stringLengthOffset = startStringsOffset + unat offset in
         case read_uint8 content stringLengthOffset of
           Inl e \<Rightarrow> Inl e
         | Inr (stringLength, _) \<Rightarrow>
             (case readSpan content (startStringsOffset + unat offset + 2) (unat stringLength) of
                Inl e \<Rightarrow> Inl e
              | Inr span \<Rightarrow> Inr (map byte_char span)))
      else
        (let stringLengthOffset = startStringsOffset + unat offset in
         case read_uint16 content stringLengthOffset of
           Inl e \<Rightarrow> Inl e
         | Inr (stringLength, _) \<Rightarrow>
             (case readSpan content (startStringsOffset + unat offset + 2) (2 * unat stringLength) of
                Inl e \<Rightarrow> Inl e
              | Inr span \<Rightarrow>
                  (case to_bytes (code_units span) of
                     Inl e \<Rightarrow> Inl e
                   | Inr converted \<Rightarrow> Inr (map byte_char converted)))))"

text \<open>
  A \<open>for\<close> loop that pushes one result per element onto a vector and stops at the first
  fault.
\<close>

fun for_each :: "('a \<Rightarrow> fault + 'b) \<Rightarrow> 'a list \<Rightarrow> fault + 'b list" where
  "for_each f [] = Inr []"
| "for_each f (x # xs) =
     (case f x of
        Inl e \<Rightarrow> Inl e
      | Inr y \<Rightarrow> (case for_each f xs of Inl e \<Rightarrow> Inl e | Inr ys \<Rightarrow> Inr (y # ys)))"

text \<open>The first loop: entry \<open>i\<close> of the offset table is the 32-bit value at \<open>36 + 4 i\<close>.\<close>

definition readStringOffset :: "bytes \<Rightarrow> nat \<Rightarrow> fault + 32 word" where
  "readStringOffset content i =
     map_sum id fst (read_uint32 content (sizeof_BinaryXmlHeader + i * 4))"

definition readStrings :: "bytes \<Rightarrow> fault + strings" where
  "readStrings content =
     (case header_xmlMagicNumber content of
        Inl e \<Rightarrow> Inl e
      | Inr xmlMagicNumber \<Rightarrow>
          if xmlMagicNumber \<noteq> XML_IDENTIFIER then Inr []
          else
            (case header_stringTableIdentifier content of
               Inl e \<Rightarrow> Inl e
             | Inr stringTableIdentifier \<Rightarrow>
                 if stringTableIdentifier \<noteq> XML_STRING_TABLE then Inr []
                 else
                   (case header_numStrings content of
                      Inl e \<Rightarrow> Inl e
                    | Inr numStrings \<Rightarrow>
                        (case for_each (readStringOffset content) [0 ..< unat numStrings] of
                           Inl e \<Rightarrow> Inl e
                         | Inr stringOffsets \<Rightarrow>
                             (let stringOffsetsInBytes = length stringOffsets * 4;
                                  startStringsOffset = sizeof_BinaryXmlHeader + stringOffsetsInBytes
                              in case header_flags content of
                                   Inl e \<Rightarrow> Inl e
                                 | Inr flags \<Rightarrow>
                                     (let isUtf8Encoded = (flags AND RES_FLAG_UTF8 = RES_FLAG_UTF8)
                                      in for_each (readString content startStringsOffset isUtf8Encoded)
                                           stringOffsets))))))"

subsection \<open>\<open>formatString\<close>\<close>

text \<open>
  Modelled from the spec: \<open>formatString\<close> (\<open>utils/utils.h\<close>) is not among the sources.
  The source calls it with a \<open>printf\<close> format and one 32-bit argument. The two
  conversions that occur in these formats are modelled: \<open>%08X\<close> prints the value as
  eight upper-case hexadecimal digits, padded with zeros; \<open>%d\<close> prints the same 32 bits
  as a signed decimal number (section 4.5 of the specification: "raw as signed-decimal").
  Every other character of the format is copied.
\<close>

definition digit :: "nat \<Rightarrow> char" where
  "digit d = ''0123456789ABCDEF'' ! d"

definition format_08X :: "32 word \<Rightarrow> string" where
  "format_08X v = map (\<lambda>i. digit (unat v div 16 ^ i mod 16)) [7, 6, 5, 4, 3, 2, 1, 0]"

fun decimal :: "nat \<Rightarrow> string" where
  "decimal n = (if n < 10 then [digit n] else decimal (n div 10) @ [digit (n mod 10)])"

declare decimal.simps [simp del]

definition format_d :: "32 word \<Rightarrow> string" where
  "format_d v = (if sint v < 0 then CHR ''-'' # decimal (nat (- sint v)) else decimal (nat (sint v)))"

function formatString :: "string \<Rightarrow> 32 word \<Rightarrow> string" where
  "formatString [] v = []"
| "formatString (c # format) v =
     (if c = CHR ''%'' \<and> take 3 format = ''08X'' then format_08X v @ formatString (drop 3 format) v
      else if c = CHR ''%'' \<and> take 1 format = ''d'' then format_d v @ formatString (drop 1 format) v
      else c # formatString format v)"
  by pat_completeness auto
termination
  by (relation "measure (\<lambda>(format, v). length format)") auto

subsection \<open>\<open>handleAttributes\<close>\<close>

text \<open>
  \<open>strings[i]\<close> on the decoded pool, a \<open>std::vector\<close> indexed without a check.
\<close>

definition stringAt :: "strings \<Rightarrow> nat \<Rightarrow> fault + string" where
  "stringAt strings i = (if i < length strings then Inr (strings ! i) else Inl PoolIndexOutOfRange)"

text \<open>The attribute map is a \<open>std::map<std::string, std::string>\<close>.\<close>

type_synonym attributes = "string \<rightharpoonup> string"

text \<open>
  The \<open>switch\<close> on \<open>attributeValueType\<close>. The tags are distinct constants, so the chain
  of tests takes the branch the \<open>switch\<close> takes; the three branches that only
  \<open>break\<close> leave \<open>attributeValue\<close> as it was constructed, empty.
\<close>

definition attributeValueOf :: "strings \<Rightarrow> byte \<Rightarrow> 32 word \<Rightarrow> 32 word \<Rightarrow> fault + string" where
  "attributeValueOf strings attributeValueType attributeResourceId attributeValueIndex =
     (if attributeValueType = TYPE_NULL then
        Inr (if attributeResourceId = 0 then ''<undefined>'' else ''<empty>'')
      else if attributeValueType = TYPE_REFERENCE then
        Inr (formatString ''@res/0x%08X'' attributeResourceId)
      else if attributeValueType = TYPE_ATTRIBUTE then
        Inr (formatString ''@attr/0x%08X'' attributeResourceId)
      else if attributeValueType = TYPE_STRING then
        stringAt strings (unat attributeValueIndex)
      else if attributeValueType = TYPE_FLOAT then Inr []
      else if attributeValueType = TYPE_DIMENSION then Inr []
      else if attributeValueType = TYPE_FRACTION then Inr []
      else if attributeValueType = TYPE_DYNAMIC_REFERENCE then
        Inr (formatString ''@dyn/0x%08X'' attributeResourceId)
      else if attributeValueType = TYPE_INT_DEC then
        Inr (formatString ''%d'' attributeResourceId)
      else if attributeValueType = TYPE_INT_HEX then
        Inr (formatString ''0x%08X'' attributeResourceId)
      else if attributeValueType = TYPE_INT_BOOLEAN then
        Inr (if attributeResourceId = RES_VALUE_TRUE then ''true''
             else if attributeResourceId = RES_VALUE_FALSE then ''false''
             else ''unknown'')
      else Inr ''unknown'')"

text \<open>
  \<open>and_then\<close> sequences two steps of straight-line code: a fault in the first step ends
  the function, as the access outside the container would.
\<close>

definition and_then :: "fault + 'a \<Rightarrow> ('a \<Rightarrow> fault + 'b) \<Rightarrow> fault + 'b" where
  "and_then r f = (case r of Inl e \<Rightarrow> Inl e | Inr x \<Rightarrow> f x)"

lemma and_then_Inl [simp]: "and_then (Inl e) f = Inl e"
  by (simp add: and_then_def)

lemma and_then_Inr [simp]: "and_then (Inr x) f = f x"
  by (simp add: and_then_def)

text \<open>
  The seven reads at the head of the loop body: the 20 bytes of one attribute record. The
  result is the name index, the raw-value-string index, the type tag and the 32-bit typed
  value, with the advanced offset.
\<close>

definition readAttribute :: "bytes \<Rightarrow> nat \<Rightarrow> fault + ((32 word \<times> 32 word \<times> byte \<times> 32 word) \<times> nat)" where
  "readAttribute contents contentsOffset =
     and_then (read_uint32 contents contentsOffset) (\<lambda>(attributeNamespaceIndex, contentsOffset).
     and_then (read_uint32 contents contentsOffset) (\<lambda>(attributeNameIndex, contentsOffset).
     and_then (read_uint32 contents contentsOffset) (\<lambda>(attributeValueIndex, contentsOffset).
     and_then (read_uint16 contents contentsOffset) (\<lambda>(size, contentsOffset).
     and_then (read_uint8 contents contentsOffset) (\<lambda>(padding, contentsOffset).
     and_then (read_uint8 contents contentsOffset) (\<lambda>(attributeValueType, contentsOffset).
     and_then (read_uint32 contents contentsOffset) (\<lambda>(attributeResourceId, contentsOffset).
       Inr ((attributeNameIndex, attributeValueIndex, attributeValueType, attributeResourceId),
            contentsOffset))))))))"

text \<open>
  The rest of the loop body, after the reads: the name is looked up, a record with an empty
  name is skipped (\<open>continue\<close>), and otherwise the decoded value is assigned under the
  name, \<open>attributes[attributeName] = attributeValue\<close>.
\<close>

definition assignAttribute :: "strings \<Rightarrow> (32 word \<times> 32 word \<times> byte \<times> 32 word) \<Rightarrow> attributes \<Rightarrow> fault + attributes" where
  "assignAttribute strings record attributes =
     (case record of (attributeNameIndex, attributeValueIndex, attributeValueType, attributeResourceId) \<Rightarrow>
        and_then (stringAt strings (unat attributeNameIndex)) (\<lambda>attributeName.
          if attributeName = [] then Inr attributes
          else
            and_then (attributeValueOf strings attributeValueType attributeResourceId attributeValueIndex)
              (\<lambda>attributeValue. Inr (attributes(attributeName \<mapsto> attributeValue)))))"

text \<open>
  The loop \<open>for (auto i = 0U; i < attributesCount; i++)\<close>; the first argument counts the
  iterations that remain.
\<close>

fun attributesLoop :: "nat \<Rightarrow> bytes \<Rightarrow> strings \<Rightarrow> nat \<Rightarrow> attributes \<Rightarrow> fault + (attributes \<times> nat)" where
  "attributesLoop 0 contents strings contentsOffset attributes = Inr (attributes, contentsOffset)"
| "attributesLoop (Suc n) contents strings contentsOffset attributes =
     (case readAttribute contents contentsOffset of
        Inl e \<Rightarrow> Inl e
      | Inr (record, contentsOffset') \<Rightarrow>
          (case assignAttribute strings record attributes of
             Inl e \<Rightarrow> Inl e
           | Inr attributes' \<Rightarrow> attributesLoop n contents strings contentsOffset' attributes'))"

definition handleAttributes :: "bytes \<Rightarrow> strings \<Rightarrow> nat \<Rightarrow> fault + (attributes \<times> nat)" where
  "handleAttributes contents strings contentsOffset =
     and_then (read_uint32 contents contentsOffset) (\<lambda>(attributeMarker, contentsOffset).
       if attributeMarker \<noteq> XML_ATTRS_MARKER then Inr (Map.empty, contentsOffset)
       else
         and_then (read_uint32 contents contentsOffset) (\<lambda>(attributesCount, contentsOffset).
         and_then (read_uint32 contents contentsOffset) (\<lambda>(unused, contentsOffset).
           attributesLoop (unat attributesCount) contents strings contentsOffset Map.empty)))"

text \<open>
  The name and the value that record \<open>k\<close> of an attribute block contributes, where
  \<open>recordsOffset\<close> is the offset of the first record. The records are 20 bytes each,
  so record \<open>k\<close> is read at \<open>recordsOffset + 20 k\<close>.
\<close>

definition attributeNameAt :: "bytes \<Rightarrow> strings \<Rightarrow> nat \<Rightarrow> nat \<Rightarrow> fault + string" where
  "attributeNameAt contents strings recordsOffset k =
     and_then (readAttribute contents (recordsOffset + 20 * k))
       (\<lambda>((attributeNameIndex, attributeValueIndex, attributeValueType, attributeResourceId), _).
          stringAt strings (unat attributeNameIndex))"

definition attributeValueAt :: "bytes \<Rightarrow> strings \<Rightarrow> nat \<Rightarrow> nat \<Rightarrow> fault + string" where
  "attributeValueAt contents strings recordsOffset k =
     and_then (readAttribute contents (recordsOffset + 20 * k))
       (\<lambda>((attributeNameIndex, attributeValueIndex, attributeValueType, attributeResourceId), _).
          attributeValueOf strings attributeValueType attributeResourceId attributeValueIndex)"

subsection \<open>The handlers of the chunk tags\<close>

text \<open>
  The elements that \<open>accept\<close> hands to the visitor, one constructor per element class.
  Only three of them are ever constructed in \<open>binary_xml.cpp\<close>.
\<close>

datatype XmlTagElement =
    StartXmlTagElement string attributes
  | EndXmlTagElement string
  | CDataTagElement string
  | InvalidXmlTagElement string

text \<open>
  \<open>index >= 0 ? strings[static_cast<uint32_t>(index)] : ""\<close> on a signed index.
\<close>

definition stringAtOrEmpty :: "strings \<Rightarrow> int \<Rightarrow> fault + string" where
  "stringAtOrEmpty strings index = (if index \<ge> 0 then stringAt strings (nat index) else Inr [])"

definition handleStartElementTag :: "bytes \<Rightarrow> strings \<Rightarrow> nat \<Rightarrow> fault + (XmlTagElement \<times> nat)" where
  "handleStartElementTag contents strings contentsOffset =
     and_then (read_uint32 contents contentsOffset) (\<lambda>(lineNumber, contentsOffset).
     and_then (read_uint32 contents contentsOffset) (\<lambda>(comment, contentsOffset).
     and_then (read_int32 contents contentsOffset) (\<lambda>(namespaceStringIndex, contentsOffset).
     and_then (stringAtOrEmpty strings namespaceStringIndex) (\<lambda>namespaceString.
     and_then (read_int32 contents contentsOffset) (\<lambda>(stringIndex, contentsOffset).
     and_then (stringAtOrEmpty strings stringIndex) (\<lambda>string.
     and_then (handleAttributes contents strings contentsOffset) (\<lambda>(attributes, contentsOffset).
       Inr (StartXmlTagElement string attributes, contentsOffset))))))))"

definition handleEndElementTag :: "bytes \<Rightarrow> strings \<Rightarrow> nat \<Rightarrow> fault + (XmlTagElement \<times> nat)" where
  "handleEndElementTag contents strings contentsOffset =
     and_then (read_uint32 contents contentsOffset) (\<lambda>(lineNumber, contentsOffset).
     and_then (read_uint32 contents contentsOffset) (\<lambda>(comment, contentsOffset).
     and_then (read_int32 contents contentsOffset) (\<lambda>(namespaceStringIndex, contentsOffset).
     and_then (stringAtOrEmpty strings namespaceStringIndex) (\<lambda>namespaceString.
     and_then (read_int32 contents contentsOffset) (\<lambda>(stringIndex, contentsOffset).
     and_then (stringAtOrEmpty strings stringIndex) (\<lambda>string.
       Inr (EndXmlTagElement string, contentsOffset)))))))"

text \<open>
  \<open>handleCDataTag\<close> has no visitor parameter: it reads its five words, looks the string
  up, logs it and returns. The result is the advanced offset alone.
\<close>

definition handleCDataTag :: "bytes \<Rightarrow> strings \<Rightarrow> nat \<Rightarrow> fault + nat" where
  "handleCDataTag contents strings contentsOffset =
     and_then (read_uint32 contents contentsOffset) (\<lambda>(lineNumber, contentsOffset).
     and_then (read_uint32 contents contentsOffset) (\<lambda>(comment, contentsOffset).
     and_then (read_uint32 contents contentsOffset) (\<lambda>(stringIndex, contentsOffset).
     and_then (stringAt strings (unat stringIndex)) (\<lambda>string.
     and_then (read_uint32 contents contentsOffset) (\<lambda>(typedSize, contentsOffset).
     and_then (read_uint32 contents contentsOffset) (\<lambda>(typedData, contentsOffset).
       Inr contentsOffset))))))"

subsection \<open>\<open>BinaryXml::traverseXml\<close>\<close>

text \<open>
  The visitor is a sink: \<open>accept(visitor)\<close> hands it one element. The model of the
  traversal returns the elements accepted, in order, and how the traversal ended: \<open>None\<close>
  when \<open>traverseXml\<close> returned, \<open>Some\<close> fault when it left the buffer or the pool.

  \<open>handleChunk\<close> is the \<open>switch\<close> on the tag. \<open>chunkSize - 8\<close> is computed on
  \<open>uint32_t\<close> and wraps; the sum with the 64-bit cursor does not.
\<close>

definition handleChunk :: "bytes \<Rightarrow> strings \<Rightarrow> 16 word \<Rightarrow> 32 word \<Rightarrow> nat \<Rightarrow> fault + (XmlTagElement list \<times> nat)" where
  "handleChunk content strings tag chunkSize currentXmlChunkOffset =
     (if tag = RES_XML_START_NAMESPACE_TYPE then
        Inr ([], currentXmlChunkOffset + unat (chunkSize - 8))
      else if tag = RES_XML_RESOURCE_MAP_TYPE then
        Inr ([], currentXmlChunkOffset + unat (chunkSize - 8))
      else if tag = RES_XML_START_ELEMENT_TYPE then
        and_then (handleStartElementTag content strings currentXmlChunkOffset)
          (\<lambda>(element, currentXmlChunkOffset). Inr ([element], currentXmlChunkOffset))
      else if tag = RES_XML_END_ELEMENT_TYPE then
        and_then (handleEndElementTag content strings currentXmlChunkOffset)
          (\<lambda>(element, currentXmlChunkOffset). Inr ([element], currentXmlChunkOffset))
      else if tag = RES_XML_CDATA_TYPE then
        and_then (handleCDataTag content strings currentXmlChunkOffset)
          (\<lambda>currentXmlChunkOffset. Inr ([], currentXmlChunkOffset))
      else Inr ([], currentXmlChunkOffset))"

text \<open>
  One pass through the body of the \<open>do ... while\<close> loop, up to and including the read of
  the next tag: the elements accepted in this pass, and either the fault that ended it or
  the next tag with the cursor behind it.
\<close>

definition chunkPass :: "bytes \<Rightarrow> nat \<Rightarrow> 16 word \<Rightarrow> XmlTagElement list \<times> (fault + (16 word \<times> nat))" where
  "chunkPass content currentXmlChunkOffset tag =
     (case read_uint16 content currentXmlChunkOffset of
        Inl e \<Rightarrow> ([], Inl e)
      | Inr (headerSize, offset1) \<Rightarrow>
          (case read_uint32 content offset1 of
             Inl e \<Rightarrow> ([], Inl e)
           | Inr (chunkSize, offset2) \<Rightarrow>
               (case readStrings content of
                  Inl e \<Rightarrow> ([], Inl e)
                | Inr strings \<Rightarrow>
                    (case handleChunk content strings tag chunkSize offset2 of
                       Inl e \<Rightarrow> ([], Inl e)
                     | Inr (accepted, offset3) \<Rightarrow> (accepted, read_uint16 content offset3)))))"

lemma readBytesAtIndex_Inr:
  "readBytesAtIndex n data index = Inr (v, index') \<Longrightarrow> index' = index + n \<and> index + n \<le> length data"
  by (auto simp: readBytesAtIndex_def split: if_splits)

lemma read_uint8_Inr:
  "read_uint8 data index = Inr (v, index') \<Longrightarrow> index' = index + 1 \<and> index + 1 \<le> length data"
  by (auto simp: read_uint8_def split: sum.splits dest: readBytesAtIndex_Inr)

lemma read_uint16_Inr:
  "read_uint16 data index = Inr (v, index') \<Longrightarrow> index' = index + 2 \<and> index + 2 \<le> length data"
  by (auto simp: read_uint16_def split: sum.splits dest: readBytesAtIndex_Inr)

lemma read_uint32_Inr:
  "read_uint32 data index = Inr (v, index') \<Longrightarrow> index' = index + 4 \<and> index + 4 \<le> length data"
  by (auto simp: read_uint32_def split: sum.splits dest: readBytesAtIndex_Inr)

lemma read_int32_Inr:
  "read_int32 data index = Inr (v, index') \<Longrightarrow> index' = index + 4 \<and> index + 4 \<le> length data"
  by (auto simp: read_int32_def split: sum.splits dest: read_uint32_Inr)

lemma and_then_Inr_iff:
  "and_then r f = Inr y \<longleftrightarrow> (\<exists>x. r = Inr x \<and> f x = Inr y)"
  by (cases r) simp_all

lemma readAttribute_Inr:
  assumes "readAttribute contents contentsOffset = Inr (record, contentsOffset')"
  shows "contentsOffset' = contentsOffset + 20"
  using assms unfolding readAttribute_def
  by (auto simp: and_then_Inr_iff dest!: read_uint32_Inr read_uint16_Inr read_uint8_Inr)

lemma attributesLoop_offset:
  "attributesLoop n contents strings contentsOffset attributes = Inr (attributes', contentsOffset')
   \<Longrightarrow> contentsOffset' = contentsOffset + 20 * n"
proof (induction n arbitrary: contentsOffset attributes)
  case 0
  then show ?case by simp
next
  case (Suc n)
  from Suc.prems obtain fields offset1 attributes1 where
    r: "readAttribute contents contentsOffset = Inr (fields, offset1)" and
    l: "attributesLoop n contents strings offset1 attributes1 = Inr (attributes', contentsOffset')"
    by (auto split: sum.splits)
  from Suc.IH [OF l] readAttribute_Inr [OF r] show ?case by simp
qed

lemma handleAttributes_offset:
  assumes "handleAttributes contents strings contentsOffset = Inr (attributes, contentsOffset')"
  shows "contentsOffset \<le> contentsOffset'"
  using assms unfolding handleAttributes_def
  by (auto simp: and_then_Inr_iff split: if_splits dest!: read_uint32_Inr attributesLoop_offset)

lemma handleStartElementTag_offset:
  assumes "handleStartElementTag contents strings contentsOffset = Inr (element, contentsOffset')"
  shows "contentsOffset \<le> contentsOffset'"
  using assms unfolding handleStartElementTag_def
  by (auto simp: and_then_Inr_iff dest!: read_uint32_Inr read_int32_Inr handleAttributes_offset)

lemma handleEndElementTag_offset:
  assumes "handleEndElementTag contents strings contentsOffset = Inr (element, contentsOffset')"
  shows "contentsOffset' = contentsOffset + 16"
  using assms unfolding handleEndElementTag_def
  by (auto simp: and_then_Inr_iff dest!: read_uint32_Inr read_int32_Inr)

lemma handleCDataTag_offset:
  assumes "handleCDataTag contents strings contentsOffset = Inr contentsOffset'"
  shows "contentsOffset' = contentsOffset + 20"
  using assms unfolding handleCDataTag_def
  by (auto simp: and_then_Inr_iff dest!: read_uint32_Inr)

lemma handleChunk_offset:
  assumes "handleChunk content strings tag chunkSize offset = Inr (accepted, offset')"
  shows "offset \<le> offset'"
  using assms unfolding handleChunk_def
  by (auto simp: and_then_Inr_iff split: if_splits
      dest!: handleStartElementTag_offset handleEndElementTag_offset handleCDataTag_offset)

text \<open>
  A pass that reaches the next tag has read eight bytes at least, all of them inside the
  buffer: the cursor moves forward and stays within \<open>content_\<close>.
\<close>

lemma chunkPass_advances:
  assumes "chunkPass content offset tag = (accepted, Inr (tag', offset'))"
  shows "offset + 8 \<le> offset' \<and> offset' \<le> length content"
  using assms unfolding chunkPass_def
  by (auto split: sum.splits dest!: read_uint16_Inr read_uint32_Inr handleChunk_offset)

text \<open>
  The loop \<open>do { ... } while (tag != RES_XML_END_NAMESPACE_TYPE)\<close>: the body runs once
  before the tag is tested for the first time.
\<close>

function chunkLoop :: "bytes \<Rightarrow> nat \<Rightarrow> 16 word \<Rightarrow> XmlTagElement list \<times> fault option" where
  "chunkLoop content currentXmlChunkOffset tag =
     (case chunkPass content currentXmlChunkOffset tag of
        (accepted, Inl e) \<Rightarrow> (accepted, Some e)
      | (accepted, Inr (tag', currentXmlChunkOffset')) \<Rightarrow>
          if tag' \<noteq> RES_XML_END_NAMESPACE_TYPE then
            (case chunkLoop content currentXmlChunkOffset' tag' of
               (later, ending) \<Rightarrow> (accepted @ later, ending))
          else (accepted, None))"
  by pat_completeness auto
termination
proof (relation "measure (\<lambda>(content, offset, tag). length content - offset)")
  show "wf (measure (\<lambda>(content, offset, tag). length content - offset))"
    by simp
next
  fix content :: bytes and currentXmlChunkOffset :: nat and tag :: "16 word"
    and x accepted y tag' and currentXmlChunkOffset' :: nat and xa
  assume "(accepted, y) = chunkPass content currentXmlChunkOffset tag"
    and "y = Inr xa" and "(tag', currentXmlChunkOffset') = xa"
  then have "chunkPass content currentXmlChunkOffset tag = (accepted, Inr (tag', currentXmlChunkOffset'))"
    by simp
  from chunkPass_advances [OF this]
  show "((content, currentXmlChunkOffset', tag'), (content, currentXmlChunkOffset, tag))
        \<in> measure (\<lambda>(content, offset, tag). length content - offset)"
    by auto
qed

declare chunkLoop.simps [simp del]

definition traverseXml :: "bytes \<Rightarrow> XmlTagElement list \<times> fault option" where
  "traverseXml content =
     (case getXmlChunkOffset content of
        Inl e \<Rightarrow> ([], Some e)
      | Inr xmlChunkOffset \<Rightarrow>
          if xmlChunkOffset = 0 then ([InvalidXmlTagElement ''chunk offset is zero''], None)
          else
            (case read_uint16 content xmlChunkOffset of
               Inl e \<Rightarrow> ([], Some e)
             | Inr (tag, currentXmlChunkOffset) \<Rightarrow> chunkLoop content currentXmlChunkOffset tag))"

section \<open>The mutator\<close>

text \<open>
  Modelled from the spec: \<open>BinaryXml::setElementAttribute\<close> and the methods of
  \<open>AttributesSetterVisitor\<close> are not among the sources; only the visitor's declaration
  (\<open>attributes_setter_visitor.h\<close>) and a caller (\<open>apk.cpp\<close>) are. The definitions of this
  section follow sections 4.2, 4.4, 4.6 and 7 of the specification. They stand on the
  traversal of \<open>binary_xml.cpp\<close> modelled above.
\<close>

text \<open>
  Modelled from the spec: the error kinds of section 7 that \<open>set_element_attribute\<close> can
  return. A traversal that leaves the buffer or the pool is reported as \<open>MalformedChunk\<close>.
\<close>

datatype mutation_error = MalformedChunk fault | UnsupportedMutation

text \<open>
  Modelled from the spec (section 4.2): the length prefix of a pool entry. A length is one
  unit, or two units when the top bit of the first is set (the "high-bit continuation" form
  that the specification requires to be honoured): the other bits of the first unit are
  then the high part of the length and the second unit is its low part. The units are
  bytes in a UTF-8 pool and 16-bit words in a UTF-16 pool. The result is the length and
  the index behind the length.
\<close>

definition read_length8 :: "bytes \<Rightarrow> nat \<Rightarrow> fault + (nat \<times> nat)" where
  "read_length8 content index =
     and_then (read_uint8 content index) (\<lambda>(first, index).
       if unat first < 0x80 then Inr (unat first, index)
       else
         and_then (read_uint8 content index) (\<lambda>(second, index).
           Inr ((unat first - 0x80) * 0x100 + unat second, index)))"

definition read_length16 :: "bytes \<Rightarrow> nat \<Rightarrow> fault + (nat \<times> nat)" where
  "read_length16 content index =
     and_then (read_uint16 content index) (\<lambda>(first, index).
       if unat first < 0x8000 then Inr (unat first, index)
       else
         and_then (read_uint16 content index) (\<lambda>(second, index).
           Inr ((unat first - 0x8000) * 0x10000 + unat second, index)))"

text \<open>
  Modelled from the spec (section 4.2): \<open>raw_slot(i)\<close>, the byte offset, the byte length
  and the encoding of the payload of pool string \<open>i\<close>, without its length prefix and its
  terminator. The string data begin at \<open>sizeof(header) + N * 4\<close>. UTF-16: a count \<open>c\<close>
  of 16-bit units, then a payload of \<open>2 c\<close> bytes. UTF-8: a UTF-16 character count, then
  a byte count \<open>b\<close>, then a payload of \<open>b\<close> bytes. Each count is a length prefix in the
  sense above, so the payload starts behind the last unit of the prefix. The slot has to
  lie inside the buffer.
\<close>

definition raw_slot :: "bytes \<Rightarrow> nat \<Rightarrow> fault + (nat \<times> nat \<times> bool)" where
  "raw_slot content i =
     and_then (header_numStrings content) (\<lambda>numStrings.
     and_then (header_flags content) (\<lambda>flags.
       if i \<ge> unat numStrings then Inl PoolIndexOutOfRange
       else
         and_then (readStringOffset content i) (\<lambda>offset.
           (let entry = sizeof_BinaryXmlHeader + unat numStrings * 4 + unat offset;
                isUtf8Encoded = (flags AND RES_FLAG_UTF8 = RES_FLAG_UTF8)
            in and_then
                 (if isUtf8Encoded
                  then and_then (read_length8 content entry) (\<lambda>(utf16_count, index).
                         read_length8 content index)
                  else and_then (read_length16 content entry) (\<lambda>(c, index).
                         Inr (2 * c, index)))
                 (\<lambda>(byte_length, byte_offset).
                    if byte_offset + byte_length \<le> length content
                    then Inr (byte_offset, byte_length, isUtf8Encoded)
                    else Inl ReadPastEnd)))))"

text \<open>
  Modelled from the spec (section 4.6): \<open>encode(new_value, encoding)\<close>. The value is a
  \<open>std::string\<close>, UTF-8 text. For a UTF-8 pool its encoding is its bytes. For a UTF-16
  pool each character becomes one 16-bit unit, or a surrogate pair, in little-endian
  order; a byte sequence that is not UTF-8 has no encoding (the counterpart of the
  \<open>std::range_error\<close> of \<open>to_bytes\<close>).
\<close>

definition continuation :: "byte \<Rightarrow> bool" where
  "continuation b \<longleftrightarrow> 0x80 \<le> unat b \<and> unat b < 0xC0"

definition utf16_units :: "nat \<Rightarrow> 16 word list" where
  "utf16_units c =
     (if c < 0x10000 then [of_nat c]
      else [of_nat (0xD800 + (c - 0x10000) div 0x400), of_nat (0xDC00 + (c - 0x10000) mod 0x400)])"

fun from_bytes :: "bytes \<Rightarrow> fault + 16 word list" where
  "from_bytes [] = Inr []"
| "from_bytes (b # bs) =
     (if unat b < 0x80 then
        (case from_bytes bs of Inl e \<Rightarrow> Inl e | Inr us \<Rightarrow> Inr (utf16_units (unat b) @ us))
      else if 0xC0 \<le> unat b \<and> unat b < 0xE0 then
        (case bs of
           b1 # rest \<Rightarrow>
             if continuation b1 then
               (case from_bytes rest of
                  Inl e \<Rightarrow> Inl e
                | Inr us \<Rightarrow> Inr (utf16_units ((unat b - 0xC0) * 0x40 + (unat b1 - 0x80)) @ us))
             else Inl RangeError
         | _ \<Rightarrow> Inl RangeError)
      else if 0xE0 \<le> unat b \<and> unat b < 0xF0 then
        (case bs of
           b1 # b2 # rest \<Rightarrow>
             if continuation b1 \<and> continuation b2 then
               (case from_bytes rest of
                  Inl e \<Rightarrow> Inl e
                | Inr us \<Rightarrow>
                    Inr (utf16_units ((unat b - 0xE0) * 0x1000 + (unat b1 - 0x80) * 0x40
                                       + (unat b2 - 0x80)) @ us))
             else Inl RangeError
         | _ \<Rightarrow> Inl RangeError)
      else if 0xF0 \<le> unat b \<and> unat b < 0xF8 then
        (case bs of
           b1 # b2 # b3 # rest \<Rightarrow>
             if continuation b1 \<and> continuation b2 \<and> continuation b3 then
               (case from_bytes rest of
                  Inl e \<Rightarrow> Inl e
                | Inr us \<Rightarrow>
                    Inr (utf16_units ((unat b - 0xF0) * 0x40000 + (unat b1 - 0x80) * 0x1000
                                       + (unat b2 - 0x80) * 0x40 + (unat b3 - 0x80)) @ us))
             else Inl RangeError
         | _ \<Rightarrow> Inl RangeError)
      else Inl RangeError)"

definition little_endian :: "16 word list \<Rightarrow> bytes" where
  "little_endian us = concat (map (\<lambda>u. [of_nat (unat u mod 256), of_nat (unat u div 256)]) us)"

definition encode :: "string \<Rightarrow> bool \<Rightarrow> fault + bytes" where
  "encode new_value isUtf8Encoded =
     (if isUtf8Encoded then Inr (map char_byte new_value)
      else map_sum id little_endian (from_bytes (map char_byte new_value)))"

text \<open>
  Modelled from the spec (section 4.4): the stack of open element names that the attribute
  setter keeps. On \<open>Start\<close> the name is pushed, on \<open>End\<close> the top is popped.
\<close>

fun visit_stack :: "string list \<Rightarrow> XmlTagElement \<Rightarrow> string list" where
  "visit_stack stack (StartXmlTagElement name attributes) = stack @ [name]"
| "visit_stack stack (EndXmlTagElement name) = butlast stack"
| "visit_stack stack element = stack"

text \<open>
  Modelled from the spec (section 4.6): "identify the raw-value-string-pool index of that
  attribute". Of the \<open>attributesCount\<close> records that start at \<open>recordsOffset\<close>, the one
  that gives the attribute map its entry for \<open>name\<close> is the last record with that name;
  the result is its raw-value-string index.
\<close>

definition attributeValueIndexAt :: "bytes \<Rightarrow> nat \<Rightarrow> nat \<Rightarrow> fault + 32 word" where
  "attributeValueIndexAt contents recordsOffset k =
     and_then (readAttribute contents (recordsOffset + 20 * k))
       (\<lambda>((attributeNameIndex, attributeValueIndex, attributeValueType, attributeResourceId), _).
          Inr attributeValueIndex)"

definition rawValueIndexOf :: "bytes \<Rightarrow> strings \<Rightarrow> nat \<Rightarrow> nat \<Rightarrow> string \<Rightarrow> fault + 32 word option" where
  "rawValueIndexOf contents strings recordsOffset attributesCount name =
     (case filter (\<lambda>k. attributeNameAt contents strings recordsOffset k = Inr name)
             (rev [0 ..< attributesCount]) of
        [] \<Rightarrow> Inr None
      | k # _ \<Rightarrow> map_sum id Some (attributeValueIndexAt contents recordsOffset k))"

text \<open>
  Modelled from the spec (sections 4.4 and 4.6): the traversal with the attribute setter.
  The passes are those of \<open>traverseXml\<close>. After each pass the elements accepted in it
  update the stack. When the pass was over a start-element chunk, the stack now equals the
  path and the element has the attribute, the traversal has found its target, the first
  matching element: the result is the raw-value-string index of the attribute. The pass
  starts behind the chunk's tag, so the element's attribute block starts 22 bytes into
  the pass, its count 26 bytes and its first record 34 bytes.
\<close>

definition targetOfPass :: "bytes \<Rightarrow> string list \<Rightarrow> string \<Rightarrow> string list \<Rightarrow> nat \<Rightarrow> XmlTagElement list \<Rightarrow> fault + 32 word option" where
  "targetOfPass content elementPath attributeName stack offset accepted =
     (case accepted of
        [StartXmlTagElement name attributes] \<Rightarrow>
          if stack = elementPath \<and> attributes attributeName \<noteq> None then
            and_then (readStrings content) (\<lambda>strings.
            and_then (read_uint32 content (offset + 26)) (\<lambda>(attributesCount, _).
              rawValueIndexOf content strings (offset + 34) (unat attributesCount) attributeName))
          else Inr None
      | _ \<Rightarrow> Inr None)"

function locateLoop :: "bytes \<Rightarrow> string list \<Rightarrow> string \<Rightarrow> string list \<Rightarrow> nat \<Rightarrow> 16 word \<Rightarrow> fault + 32 word option" where
  "locateLoop content elementPath attributeName stack offset tag =
     (case chunkPass content offset tag of
        (accepted, outcome) \<Rightarrow>
          (let stack' = foldl visit_stack stack accepted in
           case targetOfPass content elementPath attributeName stack' offset accepted of
             Inl e \<Rightarrow> Inl e
           | Inr (Some index) \<Rightarrow> Inr (Some index)
           | Inr None \<Rightarrow>
               (case outcome of
                  Inl e \<Rightarrow> Inl e
                | Inr (tag', offset') \<Rightarrow>
                    if tag' \<noteq> RES_XML_END_NAMESPACE_TYPE
                    then locateLoop content elementPath attributeName stack' offset' tag'
                    else Inr None)))"
  by pat_completeness auto
termination
proof (relation "measure (\<lambda>(content, elementPath, attributeName, stack, offset, tag). length content - offset)")
  show "wf (measure (\<lambda>(content, elementPath, attributeName, stack, offset, tag). length content - offset))"
    by simp
next
  fix content :: bytes and elementPath :: "string list" and attributeName :: string
    and stack :: "string list" and offset :: nat and tag :: "16 word"
    and x accepted outcome stack' and continue :: "16 word \<times> nat" and tag' offset'
  assume "(accepted, outcome) = chunkPass content offset tag"
    and "outcome = Inr continue" and "(tag', offset') = continue"
  then have "chunkPass content offset tag = (accepted, Inr (tag', offset'))"
    by simp
  from chunkPass_advances [OF this]
  show "((content, elementPath, attributeName, stack', offset', tag'),
         (content, elementPath, attributeName, stack, offset, tag))
        \<in> measure (\<lambda>(content, elementPath, attributeName, stack, offset, tag). length content - offset)"
    by auto
qed

declare locateLoop.simps [simp del]

definition locateAttribute :: "bytes \<Rightarrow> string list \<Rightarrow> string \<Rightarrow> fault + 32 word option" where
  "locateAttribute content elementPath attributeName =
     (case getXmlChunkOffset content of
        Inl e \<Rightarrow> Inl e
      | Inr xmlChunkOffset \<Rightarrow>
          if xmlChunkOffset = 0 then Inr None
          else
            (case read_uint16 content xmlChunkOffset of
               Inl e \<Rightarrow> Inl e
             | Inr (tag, offset) \<Rightarrow> locateLoop content elementPath attributeName [] offset tag))"

text \<open>
  Modelled from the spec (section 4.6): the slot bytes are overwritten by the encoded
  replacement; everything else, the length prefix and the terminator included, stays.
\<close>

definition overwrite :: "bytes \<Rightarrow> nat \<Rightarrow> bytes \<Rightarrow> bytes" where
  "overwrite content byte_offset encoded =
     take byte_offset content @ encoded @ drop (byte_offset + length encoded) content"

text \<open>
  Modelled from the spec (sections 4.6 and 7): \<open>set_element_attribute(path, name,
  new_value)\<close>. The result is the outcome and the buffer after the call. With no matching
  element or attribute there is nothing to do. With a target, the slot is overwritten when
  the encoded replacement has the length of the slot; otherwise the call fails with
  \<open>UnsupportedMutation\<close> and the buffer is the one it was given.
\<close>

definition set_element_attribute :: "bytes \<Rightarrow> string list \<Rightarrow> string \<Rightarrow> string \<Rightarrow> (mutation_error + unit) \<times> bytes" where
  "set_element_attribute content elementPath attributeName new_value =
     (case locateAttribute content elementPath attributeName of
        Inl e \<Rightarrow> (Inl (MalformedChunk e), content)
      | Inr None \<Rightarrow> (Inr (), content)
      | Inr (Some index) \<Rightarrow>
          (case raw_slot content (unat index) of
             Inl e \<Rightarrow> (Inl (MalformedChunk e), content)
           | Inr (byte_offset, byte_length, isUtf8Encoded) \<Rightarrow>
               (case encode new_value isUtf8Encoded of
                  Inl e \<Rightarrow> (Inl (MalformedChunk e), content)
                | Inr encoded \<Rightarrow>
                    if length encoded = byte_length
                    then (Inr (), overwrite content byte_offset encoded)
                    else (Inl UnsupportedMutation, content))))"

section \<open>Concrete buffers\<close>

text \<open>
  \<open>manifest_xml\<close> is the binary form of
  \<open><manifest package="com.example"></manifest>\<close> as Android's encoder lays it out: the
  8-byte file header, a UTF-8 string pool with the three strings \<open>manifest\<close>,
  \<open>package\<close> and \<open>com.example\<close>, and the chunks start-namespace, start-element,
  end-element, end-namespace. The pool chunk begins at byte 8 and its size field (the
  source's \<open>chunkSize\<close>) is 76, so the pool ends at byte 84.
\<close>

definition manifest_xml :: bytes where
  "manifest_xml =
    [0x03, 0x00, 0x08, 0x00, 0xD4, 0x00, 0x00, 0x00, 0x01, 0x00, 0x1C, 0x00, 0x4C, 0x00, 0x00, 0x00,
     0x03, 0x00, 0x00, 0x00, 0x00, 0x00, 0x00, 0x00, 0x00, 0x01, 0x00, 0x00, 0x28, 0x00, 0x00, 0x00,
     0x00, 0x00, 0x00, 0x00, 0x00, 0x00, 0x00, 0x00, 0x0B, 0x00, 0x00, 0x00, 0x15, 0x00, 0x00, 0x00,
     0x08, 0x08, 0x6D, 0x61, 0x6E, 0x69, 0x66, 0x65, 0x73, 0x74, 0x00, 0x07, 0x07, 0x70, 0x61, 0x63,
     0x6B, 0x61, 0x67, 0x65, 0x00, 0x0B, 0x0B, 0x63, 0x6F, 0x6D, 0x2E, 0x65, 0x78, 0x61, 0x6D, 0x70,
     0x6C, 0x65, 0x00, 0x00, 0x00, 0x01, 0x10, 0x00, 0x18, 0x00, 0x00, 0x00, 0x01, 0x00, 0x00, 0x00,
     0xFF, 0xFF, 0xFF, 0xFF, 0xFF, 0xFF, 0xFF, 0xFF, 0xFF, 0xFF, 0xFF, 0xFF, 0x02, 0x01, 0x10, 0x00,
     0x38, 0x00, 0x00, 0x00, 0x01, 0x00, 0x00, 0x00, 0xFF, 0xFF, 0xFF, 0xFF, 0xFF, 0xFF, 0xFF, 0xFF,
     0x00, 0x00, 0x00, 0x00, 0x14, 0x00, 0x14, 0x00, 0x01, 0x00, 0x00, 0x00, 0x00, 0x00, 0x00, 0x00,
     0xFF, 0xFF, 0xFF, 0xFF, 0x01, 0x00, 0x00, 0x00, 0x02, 0x00, 0x00, 0x00, 0x08, 0x00, 0x00, 0x03,
     0x02, 0x00, 0x00, 0x00, 0x03, 0x01, 0x10, 0x00, 0x18, 0x00, 0x00, 0x00, 0x01, 0x00, 0x00, 0x00,
     0xFF, 0xFF, 0xFF, 0xFF, 0xFF, 0xFF, 0xFF, 0xFF, 0x00, 0x00, 0x00, 0x00, 0x01, 0x01, 0x10, 0x00,
     0x18, 0x00, 0x00, 0x00, 0x01, 0x00, 0x00, 0x00, 0xFF, 0xFF, 0xFF, 0xFF, 0xFF, 0xFF, 0xFF, 0xFF,
     0xFF, 0xFF, 0xFF, 0xFF]"

text \<open>The same file cut off after its first 76 bytes, inside the string pool.\<close>

definition truncated_manifest :: bytes where
  "truncated_manifest = take 76 manifest_xml"

text \<open>The first bytes of a textual XML file, \<open><?xml version="1.0"?>\<close>.\<close>

definition text_xml :: bytes where
  "text_xml =
    [0x3C, 0x3F, 0x78, 0x6D, 0x6C, 0x20, 0x76, 0x65, 0x72, 0x73, 0x69, 0x6F, 0x6E, 0x3D, 0x22, 0x31,
     0x2E, 0x30, 0x22, 0x3F, 0x3E]"

text \<open>
  \<open>cafe_xml\<close> is \<open><Caf\<acute>e></Caf\<acute>e>\<close> with a UTF-8 pool: the one pool entry is
  the bytes \<open>04 05 43 61 66 C3 A9 00\<close>, four UTF-16 characters in five UTF-8 bytes.
\<close>

definition cafe_xml :: bytes where
  "cafe_xml =
    [0x03, 0x00, 0x08, 0x00, 0x9C, 0x00, 0x00, 0x00, 0x01, 0x00, 0x1C, 0x00, 0x28, 0x00, 0x00, 0x00,
     0x01, 0x00, 0x00, 0x00, 0x00, 0x00, 0x00, 0x00, 0x00, 0x01, 0x00, 0x00, 0x20, 0x00, 0x00, 0x00,
     0x00, 0x00, 0x00, 0x00, 0x00, 0x00, 0x00, 0x00, 0x04, 0x05, 0x43, 0x61, 0x66, 0xC3, 0xA9, 0x00,
     0x00, 0x01, 0x10, 0x00, 0x18, 0x00, 0x00, 0x00, 0x01, 0x00, 0x00, 0x00, 0xFF, 0xFF, 0xFF, 0xFF,
     0xFF, 0xFF, 0xFF, 0xFF, 0xFF, 0xFF, 0xFF, 0xFF, 0x02, 0x01, 0x10, 0x00, 0x24, 0x00, 0x00, 0x00,
     0x01, 0x00, 0x00, 0x00, 0xFF, 0xFF, 0xFF, 0xFF, 0xFF, 0xFF, 0xFF, 0xFF, 0x00, 0x00, 0x00, 0x00,
     0x14, 0x00, 0x14, 0x00, 0x00, 0x00, 0x00, 0x00, 0x00, 0x00, 0x00, 0x00, 0x03, 0x01, 0x10, 0x00,
     0x18, 0x00, 0x00, 0x00, 0x01, 0x00, 0x00, 0x00, 0xFF, 0xFF, 0xFF, 0xFF, 0xFF, 0xFF, 0xFF, 0xFF,
     0x00, 0x00, 0x00, 0x00, 0x01, 0x01, 0x10, 0x00, 0x18, 0x00, 0x00, 0x00, 0x01, 0x00, 0x00, 0x00,
     0xFF, 0xFF, 0xFF, 0xFF, 0xFF, 0xFF, 0xFF, 0xFF, 0xFF, 0xFF, 0xFF, 0xFF]"

text \<open>
  \<open>same_name_xml\<close> is \<open><a x:label="one" y:label="two"></a>\<close>: the start element has
  two attribute records with the same local name \<open>label\<close> in two namespaces, \<open>urn:x\<close>
  and \<open>urn:y\<close>. The attribute block of the start element (its marker) is at byte 148.
\<close>

definition same_name_xml :: bytes where
  "same_name_xml =
    [0x03, 0x00, 0x08, 0x00, 0xF8, 0x00, 0x00, 0x00, 0x01, 0x00, 0x1C, 0x00, 0x5C, 0x00, 0x00, 0x00,
     0x06, 0x00, 0x00, 0x00, 0x00, 0x00, 0x00, 0x00, 0x00, 0x01, 0x00, 0x00, 0x34, 0x00, 0x00, 0x00,
     0x00, 0x00, 0x00, 0x00, 0x00, 0x00, 0x00, 0x00, 0x04, 0x00, 0x00, 0x00, 0x0C, 0x00, 0x00, 0x00,
     0x12, 0x00, 0x00, 0x00, 0x18, 0x00, 0x00, 0x00, 0x20, 0x00, 0x00, 0x00, 0x01, 0x01, 0x61, 0x00,
     0x05, 0x05, 0x6C, 0x61, 0x62, 0x65, 0x6C, 0x00, 0x03, 0x03, 0x6F, 0x6E, 0x65, 0x00, 0x03, 0x03,
     0x74, 0x77, 0x6F, 0x00, 0x05, 0x05, 0x75, 0x72, 0x6E, 0x3A, 0x78, 0x00, 0x05, 0x05, 0x75, 0x72,
     0x6E, 0x3A, 0x79, 0x00, 0x00, 0x01, 0x10, 0x00, 0x18, 0x00, 0x00, 0x00, 0x01, 0x00, 0x00, 0x00,
     0xFF, 0xFF, 0xFF, 0xFF, 0xFF, 0xFF, 0xFF, 0xFF, 0xFF, 0xFF, 0xFF, 0xFF, 0x02, 0x01, 0x10, 0x00,
     0x4C, 0x00, 0x00, 0x00, 0x01, 0x00, 0x00, 0x00, 0xFF, 0xFF, 0xFF, 0xFF, 0xFF, 0xFF, 0xFF, 0xFF,
     0x00, 0x00, 0x00, 0x00, 0x14, 0x00, 0x14, 0x00, 0x02, 0x00, 0x00, 0x00, 0x00, 0x00, 0x00, 0x00,
     0x04, 0x00, 0x00, 0x00, 0x01, 0x00, 0x00, 0x00, 0x02, 0x00, 0x00, 0x00, 0x08, 0x00, 0x00, 0x03,
     0x02, 0x00, 0x00, 0x00, 0x05, 0x00, 0x00, 0x00, 0x01, 0x00, 0x00, 0x00, 0x03, 0x00, 0x00, 0x00,
     0x08, 0x00, 0x00, 0x03, 0x03, 0x00, 0x00, 0x00, 0x03, 0x01, 0x10, 0x00, 0x18, 0x00, 0x00, 0x00,
     0x01, 0x00, 0x00, 0x00, 0xFF, 0xFF, 0xFF, 0xFF, 0xFF, 0xFF, 0xFF, 0xFF, 0x00, 0x00, 0x00, 0x00,
     0x01, 0x01, 0x10, 0x00, 0x18, 0x00, 0x00, 0x00, 0x01, 0x00, 0x00, 0x00, 0xFF, 0xFF, 0xFF, 0xFF,
     0xFF, 0xFF, 0xFF, 0xFF, 0xFF, 0xFF, 0xFF, 0xFF]"

text \<open>
  \<open>cdata_xml\<close> is \<open><a>text</a>\<close>: a UTF-8 pool with the strings \<open>a\<close> and \<open>text\<close>,
  and the chunks start-namespace, start-element, cdata (at byte 116, referring to pool
  string 1), end-element, end-namespace.
\<close>

definition cdata_xml :: bytes where
  "cdata_xml =
    [0x03, 0x00, 0x08, 0x00, 0xC0, 0x00, 0x00, 0x00, 0x01, 0x00, 0x1C, 0x00, 0x30, 0x00, 0x00, 0x00,
     0x02, 0x00, 0x00, 0x00, 0x00, 0x00, 0x00, 0x00, 0x00, 0x01, 0x00, 0x00, 0x24, 0x00, 0x00, 0x00,
     0x00, 0x00, 0x00, 0x00, 0x00, 0x00, 0x00, 0x00, 0x04, 0x00, 0x00, 0x00, 0x01, 0x01, 0x61, 0x00,
     0x04, 0x04, 0x74, 0x65, 0x78, 0x74, 0x00, 0x00, 0x00, 0x01, 0x10, 0x00, 0x18, 0x00, 0x00, 0x00,
     0x01, 0x00, 0x00, 0x00, 0xFF, 0xFF, 0xFF, 0xFF, 0xFF, 0xFF, 0xFF, 0xFF, 0xFF, 0xFF, 0xFF, 0xFF,
     0x02, 0x01, 0x10, 0x00, 0x24, 0x00, 0x00, 0x00, 0x01, 0x00, 0x00, 0x00, 0xFF, 0xFF, 0xFF, 0xFF,
     0xFF, 0xFF, 0xFF, 0xFF, 0x00, 0x00, 0x00, 0x00, 0x14, 0x00, 0x14, 0x00, 0x00, 0x00, 0x00, 0x00,
     0x00, 0x00, 0x00, 0x00, 0x04, 0x01, 0x10, 0x00, 0x1C, 0x00, 0x00, 0x00, 0x01, 0x00, 0x00, 0x00,
     0xFF, 0xFF, 0xFF, 0xFF, 0x01, 0x00, 0x00, 0x00, 0x08, 0x00, 0x00, 0x03, 0x01, 0x00, 0x00, 0x00,
     0x03, 0x01, 0x10, 0x00, 0x18, 0x00, 0x00, 0x00, 0x01, 0x00, 0x00, 0x00, 0xFF, 0xFF, 0xFF, 0xFF,
     0xFF, 0xFF, 0xFF, 0xFF, 0x00, 0x00, 0x00, 0x00, 0x01, 0x01, 0x10, 0x00, 0x18, 0x00, 0x00, 0x00,
     0x01, 0x00, 0x00, 0x00, 0xFF, 0xFF, 0xFF, 0xFF, 0xFF, 0xFF, 0xFF, 0xFF, 0xFF, 0xFF, 0xFF, 0xFF]"

text \<open>
  \<open>manifest_xml\<close> without its last chunk: the file ends behind the end-element chunk
  and has no end-namespace chunk.
\<close>

definition unterminated_manifest :: bytes where
  "unterminated_manifest = take 188 manifest_xml"

text \<open>
  \<open>name_index_xml\<close> is a file whose pool holds the one string \<open>a\<close> and whose
  start-element chunk (at byte 68) carries the name index 1, outside the pool.
\<close>

definition name_index_xml :: bytes where
  "name_index_xml =
    [0x03, 0x00, 0x08, 0x00, 0x98, 0x00, 0x00, 0x00, 0x01, 0x00, 0x1C, 0x00, 0x24, 0x00, 0x00, 0x00,
     0x01, 0x00, 0x00, 0x00, 0x00, 0x00, 0x00, 0x00, 0x00, 0x01, 0x00, 0x00, 0x20, 0x00, 0x00, 0x00,
     0x00, 0x00, 0x00, 0x00, 0x00, 0x00, 0x00, 0x00, 0x01, 0x01, 0x61, 0x00, 0x00, 0x01, 0x10, 0x00,
     0x18, 0x00, 0x00, 0x00, 0x01, 0x00, 0x00, 0x00, 0xFF, 0xFF, 0xFF, 0xFF, 0xFF, 0xFF, 0xFF, 0xFF,
     0xFF, 0xFF, 0xFF, 0xFF, 0x02, 0x01, 0x10, 0x00, 0x24, 0x00, 0x00, 0x00, 0x01, 0x00, 0x00, 0x00,
     0xFF, 0xFF, 0xFF, 0xFF, 0xFF, 0xFF, 0xFF, 0xFF, 0x01, 0x00, 0x00, 0x00, 0x14, 0x00, 0x14, 0x00,
     0x00, 0x00, 0x00, 0x00, 0x00, 0x00, 0x00, 0x00, 0x03, 0x01, 0x10, 0x00, 0x18, 0x00, 0x00, 0x00,
     0x01, 0x00, 0x00, 0x00, 0xFF, 0xFF, 0xFF, 0xFF, 0xFF, 0xFF, 0xFF, 0xFF, 0x01, 0x00, 0x00, 0x00,
     0x01, 0x01, 0x10, 0x00, 0x18, 0x00, 0x00, 0x00, 0x01, 0x00, 0x00, 0x00, 0xFF, 0xFF, 0xFF, 0xFF,
     0xFF, 0xFF, 0xFF, 0xFF, 0xFF, 0xFF, 0xFF, 0xFF]"

text \<open>
  \<open>attribute_index_xml\<close> is \<open><a></a>\<close> with the pool strings \<open>a\<close> and \<open>one\<close>; the
  start element has one attribute record whose name index is \<open>-1\<close> (\<open>0xFFFFFFFF\<close>).
\<close>

definition attribute_index_xml :: bytes where
  "attribute_index_xml =
    [0x03, 0x00, 0x08, 0x00, 0xB8, 0x00, 0x00, 0x00, 0x01, 0x00, 0x1C, 0x00, 0x30, 0x00, 0x00, 0x00,
     0x02, 0x00, 0x00, 0x00, 0x00, 0x00, 0x00, 0x00, 0x00, 0x01, 0x00, 0x00, 0x24, 0x00, 0x00, 0x00,
     0x00, 0x00, 0x00, 0x00, 0x00, 0x00, 0x00, 0x00, 0x04, 0x00, 0x00, 0x00, 0x01, 0x01, 0x61, 0x00,
     0x03, 0x03, 0x6F, 0x6E, 0x65, 0x00, 0x00, 0x00, 0x00, 0x01, 0x10, 0x00, 0x18, 0x00, 0x00, 0x00,
     0x01, 0x00, 0x00, 0x00, 0xFF, 0xFF, 0xFF, 0xFF, 0xFF, 0xFF, 0xFF, 0xFF, 0xFF, 0xFF, 0xFF, 0xFF,
     0x02, 0x01, 0x10, 0x00, 0x38, 0x00, 0x00, 0x00, 0x01, 0x00, 0x00, 0x00, 0xFF, 0xFF, 0xFF, 0xFF,
     0xFF, 0xFF, 0xFF, 0xFF, 0x00, 0x00, 0x00, 0x00, 0x14, 0x00, 0x14, 0x00, 0x01, 0x00, 0x00, 0x00,
     0x00, 0x00, 0x00, 0x00, 0xFF, 0xFF, 0xFF, 0xFF, 0xFF, 0xFF, 0xFF, 0xFF, 0x01, 0x00, 0x00, 0x00,
     0x08, 0x00, 0x00, 0x03, 0x01, 0x00, 0x00, 0x00, 0x03, 0x01, 0x10, 0x00, 0x18, 0x00, 0x00, 0x00,
     0x01, 0x00, 0x00, 0x00, 0xFF, 0xFF, 0xFF, 0xFF, 0xFF, 0xFF, 0xFF, 0xFF, 0x00, 0x00, 0x00, 0x00,
     0x01, 0x01, 0x10, 0x00, 0x18, 0x00, 0x00, 0x00, 0x01, 0x00, 0x00, 0x00, 0xFF, 0xFF, 0xFF, 0xFF,
     0xFF, 0xFF, 0xFF, 0xFF, 0xFF, 0xFF, 0xFF, 0xFF]"

text \<open>
  \<open>debuggable_xml\<close> is \<open><application debuggable="false"></application>\<close> with a UTF-8
  pool: the attribute is of type \<open>STRING\<close> and its raw-value-string index is 2, the pool
  string \<open>false\<close>, whose five bytes are at bytes 77 to 81.
\<close>

definition debuggable_xml :: bytes where
  "debuggable_xml =
    [0x03, 0x00, 0x08, 0x00, 0xD4, 0x00, 0x00, 0x00, 0x01, 0x00, 0x1C, 0x00, 0x4C, 0x00, 0x00, 0x00,
     0x03, 0x00, 0x00, 0x00, 0x00, 0x00, 0x00, 0x00, 0x00, 0x01, 0x00, 0x00, 0x28, 0x00, 0x00, 0x00,
     0x00, 0x00, 0x00, 0x00, 0x00, 0x00, 0x00, 0x00, 0x0E, 0x00, 0x00, 0x00, 0x1B, 0x00, 0x00, 0x00,
     0x0B, 0x0B, 0x61, 0x70, 0x70, 0x6C, 0x69, 0x63, 0x61, 0x74, 0x69, 0x6F, 0x6E, 0x00, 0x0A, 0x0A,
     0x64, 0x65, 0x62, 0x75, 0x67, 0x67, 0x61, 0x62, 0x6C, 0x65, 0x00, 0x05, 0x05, 0x66, 0x61, 0x6C,
     0x73, 0x65, 0x00, 0x00, 0x00, 0x01, 0x10, 0x00, 0x18, 0x00, 0x00, 0x00, 0x01, 0x00, 0x00, 0x00,
     0xFF, 0xFF, 0xFF, 0xFF, 0xFF, 0xFF, 0xFF, 0xFF, 0xFF, 0xFF, 0xFF, 0xFF, 0x02, 0x01, 0x10, 0x00,
     0x38, 0x00, 0x00, 0x00, 0x01, 0x00, 0x00, 0x00, 0xFF, 0xFF, 0xFF, 0xFF, 0xFF, 0xFF, 0xFF, 0xFF,
     0x00, 0x00, 0x00, 0x00, 0x14, 0x00, 0x14, 0x00, 0x01, 0x00, 0x00, 0x00, 0x00, 0x00, 0x00, 0x00,
     0xFF, 0xFF, 0xFF, 0xFF, 0x01, 0x00, 0x00, 0x00, 0x02, 0x00, 0x00, 0x00, 0x08, 0x00, 0x00, 0x03,
     0x02, 0x00, 0x00, 0x00, 0x03, 0x01, 0x10, 0x00, 0x18, 0x00, 0x00, 0x00, 0x01, 0x00, 0x00, 0x00,
     0xFF, 0xFF, 0xFF, 0xFF, 0xFF, 0xFF, 0xFF, 0xFF, 0x00, 0x00, 0x00, 0x00, 0x01, 0x01, 0x10, 0x00,
     0x18, 0x00, 0x00, 0x00, 0x01, 0x00, 0x00, 0x00, 0xFF, 0xFF, 0xFF, 0xFF, 0xFF, 0xFF, 0xFF, 0xFF,
     0xFF, 0xFF, 0xFF, 0xFF]"

text \<open>
  \<open>empty_name_xml\<close> is a file with the pool strings \<open>a\<close>, the empty string, \<open>one\<close>
  and \<open>two\<close>. Its start element \<open>a\<close> has two attribute records, both with the name
  index 1, the empty string, and with the values \<open>one\<close> and \<open>two\<close>. The attribute block
  of the start element is at byte 120.
\<close>

definition empty_name_xml :: bytes where
  "empty_name_xml =
    [0x03, 0x00, 0x08, 0x00, 0xDC, 0x00, 0x00, 0x00, 0x01, 0x00, 0x1C, 0x00, 0x40, 0x00, 0x00, 0x00,
     0x04, 0x00, 0x00, 0x00, 0x00, 0x00, 0x00, 0x00, 0x00, 0x01, 0x00, 0x00, 0x2C, 0x00, 0x00, 0x00,
     0x00, 0x00, 0x00, 0x00, 0x00, 0x00, 0x00, 0x00, 0x04, 0x00, 0x00, 0x00, 0x07, 0x00, 0x00, 0x00,
     0x0D, 0x00, 0x00, 0x00, 0x01, 0x01, 0x61, 0x00, 0x00, 0x00, 0x00, 0x03, 0x03, 0x6F, 0x6E, 0x65,
     0x00, 0x03, 0x03, 0x74, 0x77, 0x6F, 0x00, 0x00, 0x00, 0x01, 0x10, 0x00, 0x18, 0x00, 0x00, 0x00,
     0x01, 0x00, 0x00, 0x00, 0xFF, 0xFF, 0xFF, 0xFF, 0xFF, 0xFF, 0xFF, 0xFF, 0xFF, 0xFF, 0xFF, 0xFF,
     0x02, 0x01, 0x10, 0x00, 0x4C, 0x00, 0x00, 0x00, 0x01, 0x00, 0x00, 0x00, 0xFF, 0xFF, 0xFF, 0xFF,
     0xFF, 0xFF, 0xFF, 0xFF, 0x00, 0x00, 0x00, 0x00, 0x14, 0x00, 0x14, 0x00, 0x02, 0x00, 0x00, 0x00,
     0x00, 0x00, 0x00, 0x00, 0xFF, 0xFF, 0xFF, 0xFF, 0x01, 0x00, 0x00, 0x00, 0x02, 0x00, 0x00, 0x00,
     0x08, 0x00, 0x00, 0x03, 0x02, 0x00, 0x00, 0x00, 0xFF, 0xFF, 0xFF, 0xFF, 0x01, 0x00, 0x00, 0x00,
     0x03, 0x00, 0x00, 0x00, 0x08, 0x00, 0x00, 0x03, 0x03, 0x00, 0x00, 0x00, 0x03, 0x01, 0x10, 0x00,
     0x18, 0x00, 0x00, 0x00, 0x01, 0x00, 0x00, 0x00, 0xFF, 0xFF, 0xFF, 0xFF, 0xFF, 0xFF, 0xFF, 0xFF,
     0x00, 0x00, 0x00, 0x00, 0x01, 0x01, 0x10, 0x00, 0x18, 0x00, 0x00, 0x00, 0x01, 0x00, 0x00, 0x00,
     0xFF, 0xFF, 0xFF, 0xFF, 0xFF, 0xFF, 0xFF, 0xFF, 0xFF, 0xFF, 0xFF, 0xFF]"

text \<open>
  \<open>long_xml\<close> is \<open>debuggable_xml\<close> with a long value: pool string 2 is a run of 300
  bytes \<open>x\<close>. Its entry starts at byte 75 with the length prefix \<open>81 2C 81 2C\<close>, two
  lengths of 300 in the two-byte form, so its payload is the 300 bytes from byte 79 on.
  \<open>long_decoded\<close> is what \<open>readStrings\<close> makes of this entry: it takes the first byte,
  \<open>0x81\<close>, for the length and decodes the 129 bytes from byte 77 on.
\<close>

definition long_xml :: bytes where
  "long_xml =
    [0x03, 0x00, 0x08, 0x00, 0xFC, 0x01, 0x00, 0x00, 0x01, 0x00, 0x1C, 0x00, 0x74, 0x01, 0x00, 0x00, 0x03, 0x00, 0x00, 0x00, 0x00, 0x00, 0x00, 0x00,
     0x00, 0x01, 0x00, 0x00, 0x28, 0x00, 0x00, 0x00, 0x00, 0x00, 0x00, 0x00, 0x00, 0x00, 0x00, 0x00, 0x0E, 0x00, 0x00, 0x00, 0x1B, 0x00, 0x00, 0x00,
     0x0B, 0x0B, 0x61, 0x70, 0x70, 0x6C, 0x69, 0x63, 0x61, 0x74, 0x69, 0x6F, 0x6E, 0x00, 0x0A, 0x0A, 0x64, 0x65, 0x62, 0x75, 0x67, 0x67, 0x61, 0x62,
     0x6C, 0x65, 0x00, 0x81, 0x2C, 0x81, 0x2C, 0x78, 0x78, 0x78, 0x78, 0x78, 0x78, 0x78, 0x78, 0x78, 0x78, 0x78, 0x78, 0x78, 0x78, 0x78, 0x78, 0x78,
     0x78, 0x78, 0x78, 0x78, 0x78, 0x78, 0x78, 0x78, 0x78, 0x78, 0x78, 0x78, 0x78, 0x78, 0x78, 0x78, 0x78, 0x78, 0x78, 0x78, 0x78, 0x78, 0x78, 0x78,
     0x78, 0x78, 0x78, 0x78, 0x78, 0x78, 0x78, 0x78, 0x78, 0x78, 0x78, 0x78, 0x78, 0x78, 0x78, 0x78, 0x78, 0x78, 0x78, 0x78, 0x78, 0x78, 0x78, 0x78,
     0x78, 0x78, 0x78, 0x78, 0x78, 0x78, 0x78, 0x78, 0x78, 0x78, 0x78, 0x78, 0x78, 0x78, 0x78, 0x78, 0x78, 0x78, 0x78, 0x78, 0x78, 0x78, 0x78, 0x78,
     0x78, 0x78, 0x78, 0x78, 0x78, 0x78, 0x78, 0x78, 0x78, 0x78, 0x78, 0x78, 0x78, 0x78, 0x78, 0x78, 0x78, 0x78, 0x78, 0x78, 0x78, 0x78, 0x78, 0x78,
     0x78, 0x78, 0x78, 0x78, 0x78, 0x78, 0x78, 0x78, 0x78, 0x78, 0x78, 0x78, 0x78, 0x78, 0x78, 0x78, 0x78, 0x78, 0x78, 0x78, 0x78, 0x78, 0x78, 0x78,
     0x78, 0x78, 0x78, 0x78, 0x78, 0x78, 0x78, 0x78, 0x78, 0x78, 0x78, 0x78, 0x78, 0x78, 0x78, 0x78, 0x78, 0x78, 0x78, 0x78, 0x78, 0x78, 0x78, 0x78,
     0x78, 0x78, 0x78, 0x78, 0x78, 0x78, 0x78, 0x78, 0x78, 0x78, 0x78, 0x78, 0x78, 0x78, 0x78, 0x78, 0x78, 0x78, 0x78, 0x78, 0x78, 0x78, 0x78, 0x78,
     0x78, 0x78, 0x78, 0x78, 0x78, 0x78, 0x78, 0x78, 0x78, 0x78, 0x78, 0x78, 0x78, 0x78, 0x78, 0x78, 0x78, 0x78, 0x78, 0x78, 0x78, 0x78, 0x78, 0x78,
     0x78, 0x78, 0x78, 0x78, 0x78, 0x78, 0x78, 0x78, 0x78, 0x78, 0x78, 0x78, 0x78, 0x78, 0x78, 0x78, 0x78, 0x78, 0x78, 0x78, 0x78, 0x78, 0x78, 0x78,
     0x78, 0x78, 0x78, 0x78, 0x78, 0x78, 0x78, 0x78, 0x78, 0x78, 0x78, 0x78, 0x78, 0x78, 0x78, 0x78, 0x78, 0x78, 0x78, 0x78, 0x78, 0x78, 0x78, 0x78,
     0x78, 0x78, 0x78, 0x78, 0x78, 0x78, 0x78, 0x78, 0x78, 0x78, 0x78, 0x78, 0x78, 0x78, 0x78, 0x78, 0x78, 0x78, 0x78, 0x78, 0x78, 0x78, 0x78, 0x78,
     0x78, 0x78, 0x78, 0x78, 0x78, 0x78, 0x78, 0x78, 0x78, 0x78, 0x78, 0x78, 0x78, 0x78, 0x78, 0x78, 0x78, 0x78, 0x78, 0x00, 0x00, 0x01, 0x10, 0x00,
     0x18, 0x00, 0x00, 0x00, 0x01, 0x00, 0x00, 0x00, 0xFF, 0xFF, 0xFF, 0xFF, 0xFF, 0xFF, 0xFF, 0xFF, 0xFF, 0xFF, 0xFF, 0xFF, 0x02, 0x01, 0x10, 0x00,
     0x38, 0x00, 0x00, 0x00, 0x01, 0x00, 0x00, 0x00, 0xFF, 0xFF, 0xFF, 0xFF, 0xFF, 0xFF, 0xFF, 0xFF, 0x00, 0x00, 0x00, 0x00, 0x14, 0x00, 0x14, 0x00,
     0x01, 0x00, 0x00, 0x00, 0x00, 0x00, 0x00, 0x00, 0xFF, 0xFF, 0xFF, 0xFF, 0x01, 0x00, 0x00, 0x00, 0x02, 0x00, 0x00, 0x00, 0x08, 0x00, 0x00, 0x03,
     0x02, 0x00, 0x00, 0x00, 0x03, 0x01, 0x10, 0x00, 0x18, 0x00, 0x00, 0x00, 0x01, 0x00, 0x00, 0x00, 0xFF, 0xFF, 0xFF, 0xFF, 0xFF, 0xFF, 0xFF, 0xFF,
     0x00, 0x00, 0x00, 0x00, 0x01, 0x01, 0x10, 0x00, 0x18, 0x00, 0x00, 0x00, 0x01, 0x00, 0x00, 0x00, 0xFF, 0xFF, 0xFF, 0xFF, 0xFF, 0xFF, 0xFF, 0xFF,
     0xFF, 0xFF, 0xFF, 0xFF]"

definition long_decoded :: string where
  "long_decoded = [CHR 0x81, CHR 0x2C] @ ''xxxxxxxxxxxxxxxxxxxxxxxxxxxxxxxxxxxxxxxxxxxxxxxxxxxxxxxxxxxxxxxxxxxxxxxxxxxxxxxxxxxxxxxxxxxxxxxxxxxxxxxxxxxxxxxxxxxxxxxxxxxxxxx''"

section \<open>Evaluation on concrete buffers\<close>

text \<open>
  The values below are computed by rewriting with the definitions. For each buffer: the
  decoded pool, the chunk offset and the first tag, and the passes of the loop one by one.
  In a file laid out by Android's encoder the pool chunk begins at byte 8, so the value of
  its size field, which the source takes as the offset of the first XML chunk, lies eight
  bytes before the end of the pool. The first pass over such a file therefore reads the
  last eight bytes of the pool as a chunk with an unknown tag and skips them; the second
  pass starts at the first real chunk.
\<close>

lemmas reads =
  readBytesAtIndex_def read_uint8_def read_uint16_def read_uint32_def read_int32_def
  header_xmlMagicNumber_def header_stringTableIdentifier_def header_chunkSize_def
  header_numStrings_def header_flags_def readSpan_def sizeof_BinaryXmlHeader_def

lemmas decodes =
  readStrings_def readStringOffset_def readString_def byte_char_def utf8_encode_def upt_rec

lemmas handlers =
  handleChunk_def handleStartElementTag_def handleEndElementTag_def handleCDataTag_def
  handleAttributes_def stringAt_def stringAtOrEmpty_def

subsection \<open>\<open>manifest_xml\<close> and its two shortened forms\<close>

lemma manifest_xml_header:
  "header_xmlMagicNumber manifest_xml = Inr XML_IDENTIFIER"
  "header_stringTableIdentifier manifest_xml = Inr XML_STRING_TABLE"
  "header_chunkSize manifest_xml = Inr 76"
  "header_numStrings manifest_xml = Inr 3"
  "header_flags manifest_xml = Inr 0x100"
  "length manifest_xml = 212"
  by (simp_all add: reads resource_types manifest_xml_def)

lemma manifest_xml_strings:
  "readStrings manifest_xml = Inr [''manifest'', ''package'', ''com.example'']"
  by (simp add: decodes reads resource_types manifest_xml_def)

lemma manifest_xml_start:
  "getXmlChunkOffset manifest_xml = Inr 76"
  "read_uint16 manifest_xml 76 = Inr (0x6178, 78)"
  by (simp_all add: getXmlChunkOffset_def reads resource_types manifest_xml_def)

lemma manifest_xml_passes:
  "chunkPass manifest_xml 78 0x6178 = ([], Inr (0x0100, 86))"
  "chunkPass manifest_xml 86 0x0100 = ([], Inr (0x0102, 110))"
  "chunkPass manifest_xml 110 0x0102
     = ([StartXmlTagElement ''manifest'' [''package'' \<mapsto> ''com.example'']], Inr (0x0103, 166))"
  "chunkPass manifest_xml 166 0x0103 = ([EndXmlTagElement ''manifest''], Inr (0x0101, 190))"
  by (simp_all only: chunkPass_def manifest_xml_strings)
     (simp_all add: handlers readAttribute_def assignAttribute_def attributeValueOf_def
        reads resource_types manifest_xml_def)

text \<open>
  The traversal of \<open>manifest_xml\<close>: the visitor receives the start element with its
  attribute map and the end element, and the traversal returns at the end-namespace tag.
\<close>

lemma manifest_xml_traverse:
  "traverseXml manifest_xml
   = ([StartXmlTagElement ''manifest'' [''package'' \<mapsto> ''com.example''],
       EndXmlTagElement ''manifest''], None)"
  by (simp add: traverseXml_def manifest_xml_start chunkLoop.simps manifest_xml_passes
      resource_types)

lemma truncated_manifest_header:
  "header_xmlMagicNumber truncated_manifest = Inr XML_IDENTIFIER"
  "header_stringTableIdentifier truncated_manifest = Inr XML_STRING_TABLE"
  "header_chunkSize truncated_manifest = Inr 76"
  "length truncated_manifest = 76"
  by (simp_all add: reads resource_types truncated_manifest_def manifest_xml_def)

lemma unterminated_manifest_strings:
  "readStrings unterminated_manifest = Inr [''manifest'', ''package'', ''com.example'']"
  by (simp add: decodes reads resource_types unterminated_manifest_def manifest_xml_def)

lemma unterminated_manifest_start:
  "getXmlChunkOffset unterminated_manifest = Inr 76"
  "read_uint16 unterminated_manifest 76 = Inr (0x6178, 78)"
  "length unterminated_manifest = 188"
  by (simp_all add: getXmlChunkOffset_def reads resource_types unterminated_manifest_def
      manifest_xml_def)

lemma unterminated_manifest_passes:
  "chunkPass unterminated_manifest 78 0x6178 = ([], Inr (0x0100, 86))"
  "chunkPass unterminated_manifest 86 0x0100 = ([], Inr (0x0102, 110))"
  "chunkPass unterminated_manifest 110 0x0102
     = ([StartXmlTagElement ''manifest'' [''package'' \<mapsto> ''com.example'']], Inr (0x0103, 166))"
  "chunkPass unterminated_manifest 166 0x0103 = ([EndXmlTagElement ''manifest''], Inl ReadPastEnd)"
  by (simp_all only: chunkPass_def unterminated_manifest_strings)
     (simp_all add: handlers readAttribute_def assignAttribute_def attributeValueOf_def
        reads resource_types unterminated_manifest_def manifest_xml_def)

subsection \<open>\<open>cdata_xml\<close>\<close>

text \<open>
  The traversal of \<open>cdata_xml\<close>, pass by pass. The traversal starts at byte 48, the value
  of the pool's size field, which is eight bytes before the end of the pool: the first pass
  reads the tail of the pool as a chunk with the unknown tag \<open>0x0404\<close> and skips it.
\<close>

lemma cdata_xml_strings: "readStrings cdata_xml = Inr [''a'', ''text'']"
  by (simp add: decodes reads resource_types cdata_xml_def)

lemma cdata_xml_start:
  "getXmlChunkOffset cdata_xml = Inr 48"
  "read_uint16 cdata_xml 48 = Inr (0x0404, 50)"
  by (simp_all add: getXmlChunkOffset_def reads resource_types cdata_xml_def)

lemma cdata_xml_passes:
  "chunkPass cdata_xml 50 0x0404 = ([], Inr (0x0100, 58))"
  "chunkPass cdata_xml 58 0x0100 = ([], Inr (0x0102, 82))"
  "chunkPass cdata_xml 82 0x0102 = ([StartXmlTagElement ''a'' Map.empty], Inr (0x0104, 118))"
  "chunkPass cdata_xml 118 0x0104 = ([], Inr (0x0103, 146))"
  "chunkPass cdata_xml 146 0x0103 = ([EndXmlTagElement ''a''], Inr (0x0101, 170))"
  by (simp_all only: chunkPass_def cdata_xml_strings)
     (simp_all add: handlers reads resource_types cdata_xml_def)

subsection \<open>\<open>name_index_xml\<close> and \<open>attribute_index_xml\<close>\<close>

lemma name_index_xml_strings: "readStrings name_index_xml = Inr [''a'']"
  by (simp add: decodes reads resource_types name_index_xml_def)

lemma name_index_xml_start:
  "getXmlChunkOffset name_index_xml = Inr 36"
  "read_uint16 name_index_xml 36 = Inr (0, 38)"
  by (simp_all add: getXmlChunkOffset_def reads resource_types name_index_xml_def)

lemma name_index_xml_passes:
  "chunkPass name_index_xml 38 0 = ([], Inr (0x0100, 46))"
  "chunkPass name_index_xml 46 0x0100 = ([], Inr (0x0102, 70))"
  "chunkPass name_index_xml 70 0x0102 = ([], Inl PoolIndexOutOfRange)"
  by (simp_all only: chunkPass_def name_index_xml_strings)
     (simp_all add: handlers reads resource_types name_index_xml_def)

lemma attribute_index_xml_strings: "readStrings attribute_index_xml = Inr [''a'', ''one'']"
  by (simp add: decodes reads resource_types attribute_index_xml_def)

lemma attribute_index_xml_start:
  "getXmlChunkOffset attribute_index_xml = Inr 48"
  "read_uint16 attribute_index_xml 48 = Inr (0x0303, 50)"
  by (simp_all add: getXmlChunkOffset_def reads resource_types attribute_index_xml_def)

lemma attribute_index_xml_passes:
  "chunkPass attribute_index_xml 50 0x0303 = ([], Inr (0x0100, 58))"
  "chunkPass attribute_index_xml 58 0x0100 = ([], Inr (0x0102, 82))"
  "chunkPass attribute_index_xml 82 0x0102 = ([], Inl PoolIndexOutOfRange)"
  by (simp_all only: chunkPass_def attribute_index_xml_strings)
     (simp_all add: handlers readAttribute_def assignAttribute_def attributeValueOf_def
        reads resource_types attribute_index_xml_def)

subsection \<open>\<open>same_name_xml\<close>, \<open>debuggable_xml\<close> and \<open>long_xml\<close>\<close>

lemma same_name_xml_block:
  "read_uint32 same_name_xml 148 = Inr (XML_ATTRS_MARKER, 152)"
  "read_uint32 same_name_xml 152 = Inr (2, 156)"
  "read_uint32 same_name_xml 156 = Inr (0, 160)"
  "readAttribute same_name_xml 160 = Inr ((1, 2, TYPE_STRING, 2), 180)"
  "readAttribute same_name_xml 180 = Inr ((1, 3, TYPE_STRING, 3), 200)"
  by (simp_all add: readAttribute_def reads resource_types same_name_xml_def)

lemma debuggable_xml_strings:
  "readStrings debuggable_xml = Inr [''application'', ''debuggable'', ''false'']"
  by (simp add: decodes reads resource_types debuggable_xml_def)

lemma debuggable_xml_start:
  "getXmlChunkOffset debuggable_xml = Inr 76"
  "read_uint16 debuggable_xml 76 = Inr (0x6605, 78)"
  by (simp_all add: getXmlChunkOffset_def reads resource_types debuggable_xml_def)

lemma debuggable_xml_passes:
  "chunkPass debuggable_xml 78 0x6605 = ([], Inr (0x0100, 86))"
  "chunkPass debuggable_xml 86 0x0100 = ([], Inr (0x0102, 110))"
  "chunkPass debuggable_xml 110 0x0102
     = ([StartXmlTagElement ''application'' [''debuggable'' \<mapsto> ''false'']], Inr (0x0103, 166))"
  by (simp_all only: chunkPass_def debuggable_xml_strings)
     (simp_all add: handlers readAttribute_def assignAttribute_def attributeValueOf_def
        reads resource_types debuggable_xml_def)

lemma debuggable_xml_block:
  "read_uint32 debuggable_xml 136 = Inr (1, 140)"
  "readAttribute debuggable_xml 144 = Inr ((1, 2, TYPE_STRING, 2), 164)"
  by (simp_all add: readAttribute_def reads resource_types debuggable_xml_def)

lemma long_xml_strings:
  "readStrings long_xml = Inr [''application'', ''debuggable'', long_decoded]"
  by (simp add: decodes reads resource_types long_xml_def long_decoded_def)

lemma long_xml_start:
  "getXmlChunkOffset long_xml = Inr 372"
  "read_uint16 long_xml 372 = Inr (0x7878, 374)"
  by (simp_all add: getXmlChunkOffset_def reads resource_types long_xml_def)

lemma long_xml_passes:
  "chunkPass long_xml 374 0x7878 = ([], Inr (0x0100, 382))"
  "chunkPass long_xml 382 0x0100 = ([], Inr (0x0102, 406))"
  "chunkPass long_xml 406 0x0102
     = ([StartXmlTagElement ''application'' [''debuggable'' \<mapsto> long_decoded]], Inr (0x0103, 462))"
  by (simp_all only: chunkPass_def long_xml_strings)
     (simp_all add: handlers readAttribute_def assignAttribute_def attributeValueOf_def
        reads resource_types long_xml_def)

lemma long_xml_block:
  "read_uint32 long_xml 432 = Inr (1, 436)"
  "readAttribute long_xml 440 = Inr ((1, 2, TYPE_STRING, 2), 460)"
  by (simp_all add: readAttribute_def reads resource_types long_xml_def)

subsection \<open>\<open>empty_name_xml\<close>\<close>

lemma empty_name_xml_strings:
  "readStrings empty_name_xml = Inr [''a'', [], ''one'', ''two'']"
  by (simp add: decodes reads resource_types empty_name_xml_def)

lemma empty_name_xml_start:
  "getXmlChunkOffset empty_name_xml = Inr 64"
  "read_uint16 empty_name_xml 64 = Inr (0x0300, 66)"
  by (simp_all add: getXmlChunkOffset_def reads resource_types empty_name_xml_def)

lemma empty_name_xml_block:
  "read_uint32 empty_name_xml 120 = Inr (XML_ATTRS_MARKER, 124)"
  "read_uint32 empty_name_xml 124 = Inr (2, 128)"
  "read_uint32 empty_name_xml 128 = Inr (0, 132)"
  "readAttribute empty_name_xml 132 = Inr ((1, 2, TYPE_STRING, 2), 152)"
  "readAttribute empty_name_xml 152 = Inr ((1, 3, TYPE_STRING, 3), 172)"
  by (simp_all add: readAttribute_def reads resource_types empty_name_xml_def)

lemma empty_name_xml_attributes:
  "handleAttributes empty_name_xml [''a'', [], ''one'', ''two''] 120 = Inr (Map.empty, 172)"
proof -
  have "attributesLoop (Suc (Suc 0)) empty_name_xml [''a'', [], ''one'', ''two''] 132 Map.empty
      = Inr (Map.empty, 172)"
    by (simp add: empty_name_xml_block assignAttribute_def stringAt_def)
  then have "attributesLoop 2 empty_name_xml [''a'', [], ''one'', ''two''] 132 Map.empty
      = Inr (Map.empty, 172)"
    by (simp only: numeral_2_eq_2)
  then show ?thesis
    by (simp add: handleAttributes_def empty_name_xml_block)
qed

lemma empty_name_xml_element:
  "read_uint16 empty_name_xml 98 = Inr (0x0010, 100)"
  "read_uint32 empty_name_xml 100 = Inr (0x4C, 104)"
  "read_uint32 empty_name_xml 104 = Inr (1, 108)"
  "read_uint32 empty_name_xml 108 = Inr (0xFFFFFFFF, 112)"
  "read_int32 empty_name_xml 112 = Inr (- 1, 116)"
  "read_int32 empty_name_xml 116 = Inr (0, 120)"
  "read_uint16 empty_name_xml 172 = Inr (0x0103, 174)"
  by (simp_all add: reads empty_name_xml_def)

lemma empty_name_xml_passes:
  "chunkPass empty_name_xml 66 0x0300 = ([], Inr (0x0100, 74))"
  "chunkPass empty_name_xml 74 0x0100 = ([], Inr (0x0102, 98))"
  "chunkPass empty_name_xml 98 0x0102 = ([StartXmlTagElement ''a'' Map.empty], Inr (0x0103, 174))"
  "chunkPass empty_name_xml 174 0x0103 = ([EndXmlTagElement ''a''], Inr (0x0101, 198))"
     apply (simp only: chunkPass_def empty_name_xml_strings)
     apply (simp add: handlers reads resource_types empty_name_xml_def)
    apply (simp only: chunkPass_def empty_name_xml_strings)
    apply (simp add: handlers reads resource_types empty_name_xml_def)
   apply (simp add: chunkPass_def empty_name_xml_strings empty_name_xml_element handleChunk_def
      handleStartElementTag_def stringAtOrEmpty_def stringAt_def empty_name_xml_attributes
      resource_types)
  apply (simp only: chunkPass_def empty_name_xml_strings)
  apply (simp add: handlers reads resource_types empty_name_xml_def)
  done

lemma empty_name_xml_traverse:
  "traverseXml empty_name_xml = ([StartXmlTagElement ''a'' Map.empty, EndXmlTagElement ''a''], None)"
  by (simp add: traverseXml_def empty_name_xml_start chunkLoop.simps empty_name_xml_passes
      resource_types)

section \<open>The claims\<close>

subsection \<open>C1: a replacement of another length\<close>

text \<open>
  C1: for every buffer, element path, attribute name and replacement value, if the
  traversal locates the attribute and the encoded replacement differs in byte length from
  the string-pool slot of the attribute's value, then \<open>set_element_attribute\<close> returns
  \<open>UnsupportedMutation\<close> and the buffer after the call is the buffer before it, byte for
  byte.
\<close>

theorem set_element_attribute_unsupported:
  assumes "locateAttribute content elementPath attributeName = Inr (Some index)"
    and "raw_slot content (unat index) = Inr (byte_offset, byte_length, isUtf8Encoded)"
    and "encode new_value isUtf8Encoded = Inr encoded"
    and "length encoded \<noteq> byte_length"
  shows "set_element_attribute content elementPath attributeName new_value
    = (Inl UnsupportedMutation, content)"
  using assms by (simp add: set_element_attribute_def)

text \<open>
  Every failure leaves the buffer as it was, and no call changes the length of the buffer:
  a slot that \<open>raw_slot\<close> returns lies inside the buffer.
\<close>

lemma set_element_attribute_failure_keeps_buffer:
  "set_element_attribute content elementPath attributeName new_value = (Inl e, content')
   \<Longrightarrow> content' = content"
  by (auto simp: set_element_attribute_def split: sum.splits option.splits if_splits)

lemma raw_slot_inside:
  "raw_slot content i = Inr (byte_offset, byte_length, isUtf8Encoded)
   \<Longrightarrow> byte_offset + byte_length \<le> length content"
  by (auto simp: raw_slot_def and_then_Inr_iff Let_def split: if_splits)

lemma set_element_attribute_length:
  "length (snd (set_element_attribute content elementPath attributeName new_value))
   = length content"
  by (auto simp: set_element_attribute_def overwrite_def
      split: sum.splits option.splits if_splits dest!: raw_slot_inside)

lemma targetOfPass_Nil:
  "targetOfPass content elementPath attributeName stack offset [] = Inr None"
  by (simp add: targetOfPass_def)

lemma debuggable_xml_index:
  "rawValueIndexOf debuggable_xml [''application'', ''debuggable'', ''false''] 144 (Suc 0)
     ''debuggable''
     = Inr (Some 2)"
  by (simp add: rawValueIndexOf_def attributeNameAt_def attributeValueIndexAt_def
      debuggable_xml_block stringAt_def)

lemma debuggable_xml_target:
  "targetOfPass debuggable_xml [''application''] ''debuggable'' [''application''] 110
     [StartXmlTagElement ''application'' [''debuggable'' \<mapsto> ''false'']] = Inr (Some 2)"
  by (simp add: targetOfPass_def debuggable_xml_strings debuggable_xml_block
      debuggable_xml_index)

lemma debuggable_xml_locate:
  "locateAttribute debuggable_xml [''application''] ''debuggable'' = Inr (Some 2)"
  by (simp add: locateAttribute_def debuggable_xml_start locateLoop.simps debuggable_xml_passes
      debuggable_xml_target targetOfPass_Nil resource_types)

lemma debuggable_xml_slot:
  "raw_slot debuggable_xml 2 = Inr (77, 5, True)"
  by (simp add: raw_slot_def read_length8_def readStringOffset_def reads resource_types
      debuggable_xml_def)

text \<open>
  The two forms of a length prefix, on bytes and on 16-bit words: 44 in one unit, 300 in
  two bytes (\<open>81 2C\<close>) and 65836 in two words (\<open>8001 012C\<close>).
\<close>

lemma read_length_forms:
  "read_length8 [0x2C, 0x2C] 0 = Inr (44, 1)"
  "read_length8 [0x81, 0x2C] 0 = Inr (300, 2)"
  "read_length16 [0x2C, 0x00, 0x2C, 0x00] 0 = Inr (44, 2)"
  "read_length16 [0x01, 0x80, 0x2C, 0x01] 0 = Inr (65836, 4)"
  by (simp_all add: read_length8_def read_length16_def reads)

lemma long_xml_index:
  "rawValueIndexOf long_xml [''application'', ''debuggable'', long_decoded] 440 (Suc 0)
     ''debuggable''
     = Inr (Some 2)"
  by (simp add: rawValueIndexOf_def attributeNameAt_def attributeValueIndexAt_def
      long_xml_block stringAt_def)

lemma long_xml_target:
  "targetOfPass long_xml [''application''] ''debuggable'' [''application''] 406
     [StartXmlTagElement ''application'' [''debuggable'' \<mapsto> long_decoded]] = Inr (Some 2)"
  by (simp add: targetOfPass_def long_xml_strings long_xml_block long_xml_index)

lemma long_xml_locate:
  "locateAttribute long_xml [''application''] ''debuggable'' = Inr (Some 2)"
  by (simp add: locateAttribute_def long_xml_start locateLoop.simps long_xml_passes
      long_xml_target targetOfPass_Nil resource_types)

text \<open>
  The slot of the long string: both lengths of the prefix \<open>81 2C 81 2C\<close> are read in
  their two-byte form, the payload starts behind the four bytes of the prefix, at byte 79,
  and is 300 bytes long.
\<close>

lemma long_xml_slot:
  "raw_slot long_xml 2 = Inr (79, 300, True)"
  by (simp add: raw_slot_def read_length8_def readStringOffset_def reads resource_types
      long_xml_def)

text \<open>
  Two concrete cases. The first is the specification's scenario: the attribute
  \<open>debuggable\<close> of \<open>application\<close> refers to the pool slot \<open>false\<close>, five bytes in a
  UTF-8 pool, and the replacement \<open>true\<close> has four. The second is the long slot of
  \<open>long_xml\<close>, 300 bytes, and a replacement of 44 bytes.
\<close>

theorem set_element_attribute_unsupported_witness:
  "locateAttribute debuggable_xml [''application''] ''debuggable'' = Inr (Some 2)
   \<and> raw_slot debuggable_xml (unat (2 :: 32 word)) = Inr (77, 5, True)
   \<and> encode ''true'' True = Inr [0x74, 0x72, 0x75, 0x65]
   \<and> length [0x74, 0x72, 0x75, 0x65 :: byte] \<noteq> 5
   \<and> set_element_attribute debuggable_xml [''application''] ''debuggable'' ''true''
       = (Inl UnsupportedMutation, debuggable_xml)
   \<and> locateAttribute long_xml [''application''] ''debuggable'' = Inr (Some 2)
   \<and> raw_slot long_xml (unat (2 :: 32 word)) = Inr (79, 300, True)
   \<and> encode (replicate 44 (CHR ''y'')) True = Inr (replicate 44 0x79)
   \<and> set_element_attribute long_xml [''application''] ''debuggable'' (replicate 44 (CHR ''y''))
       = (Inl UnsupportedMutation, long_xml)"
proof -
  have slot: "raw_slot debuggable_xml (unat (2 :: 32 word)) = Inr (77, 5, True)"
    by (simp add: debuggable_xml_slot)
  have encoded: "encode ''true'' True = Inr [0x74, 0x72, 0x75, 0x65]"
    by (simp add: encode_def char_byte_def)
  have differs: "length [0x74, 0x72, 0x75, 0x65 :: byte] \<noteq> 5"
    by simp
  have long_slot: "raw_slot long_xml (unat (2 :: 32 word)) = Inr (79, 300, True)"
    by (simp add: long_xml_slot)
  have long_encoded: "encode (replicate 44 (CHR ''y'')) True = Inr (replicate 44 0x79)"
    by (simp add: encode_def char_byte_def)
  have long_differs: "length (replicate 44 (0x79 :: byte)) \<noteq> 300"
    by simp
  from set_element_attribute_unsupported [OF debuggable_xml_locate slot encoded differs]
    set_element_attribute_unsupported [OF long_xml_locate long_slot long_encoded long_differs]
    debuggable_xml_locate slot encoded differs long_xml_locate long_slot long_encoded
  show ?thesis by simp
qed

text \<open>
  A replacement of the same length, \<open>FALSE\<close>, is written into the slot: the call
  succeeds, the buffer keeps its length, and the pool of the new buffer decodes to the
  replacement.
\<close>

lemma set_element_attribute_same_length:
  "set_element_attribute debuggable_xml [''application''] ''debuggable'' ''FALSE''
     = (Inr (), overwrite debuggable_xml 77 [0x46, 0x41, 0x4C, 0x53, 0x45])"
  by (simp add: set_element_attribute_def debuggable_xml_locate debuggable_xml_slot
      encode_def char_byte_def)

lemma overwritten_debuggable_xml:
  "length (overwrite debuggable_xml 77 [0x46, 0x41, 0x4C, 0x53, 0x45]) = length debuggable_xml"
  "readStrings (overwrite debuggable_xml 77 [0x46, 0x41, 0x4C, 0x53, 0x45])
     = Inr [''application'', ''debuggable'', ''FALSE'']"
  by (simp_all add: overwrite_def decodes reads resource_types debuggable_xml_def)

text \<open>
  On the long slot a replacement of 300 bytes is the one that is written, at byte 79,
  behind the length prefix.
\<close>

lemma set_element_attribute_long_slot:
  "set_element_attribute long_xml [''application''] ''debuggable'' (replicate 300 (CHR ''y''))
     = (Inr (), overwrite long_xml 79 (replicate 300 0x79))"
  by (simp add: set_element_attribute_def long_xml_locate long_xml_slot encode_def
      char_byte_def)

subsection \<open>C2: what the traversal hands to the visitor\<close>

text \<open>
  No branch of the \<open>switch\<close> constructs a \<open>CDataTagElement\<close>: whatever the buffer, the
  visitor is never handed one.
\<close>

lemma handleChunk_no_CData:
  assumes "handleChunk content strings tag chunkSize offset = Inr (accepted, offset')"
  shows "CDataTagElement text \<notin> set accepted"
  using assms unfolding handleChunk_def handleStartElementTag_def handleEndElementTag_def
  by (auto simp: and_then_Inr_iff split: if_splits)

lemma chunkPass_no_CData:
  "CDataTagElement text \<notin> set (fst (chunkPass content offset tag))"
  unfolding chunkPass_def
  by (auto split: sum.splits dest: handleChunk_no_CData)

lemma chunkLoop_no_CData:
  "CDataTagElement text \<notin> set (fst (chunkLoop content offset tag))"
proof (induction content offset tag rule: chunkLoop.induct)
  case (1 content offset tag)
  obtain accepted outcome where pass: "chunkPass content offset tag = (accepted, outcome)"
    by (cases "chunkPass content offset tag")
  from chunkPass_no_CData [of _ content offset tag] pass
  have accepted: "CDataTagElement text \<notin> set accepted"
    by simp
  show ?case
  proof (cases outcome)
    case (Inl e)
    with pass accepted show ?thesis
      by (simp add: chunkLoop.simps [of content offset tag])
  next
    case (Inr following)
    obtain tag' offset' where following: "following = (tag', offset')"
      by (cases following)
    show ?thesis
    proof (cases "tag' \<noteq> RES_XML_END_NAMESPACE_TYPE")
      case True
      from "1.IH" [OF pass [symmetric] Inr following [symmetric] True]
      have "CDataTagElement text \<notin> set (fst (chunkLoop content offset' tag'))" .
      with pass Inr following True accepted show ?thesis
        by (auto simp: chunkLoop.simps [of content offset tag] split: prod.splits)
    next
      case False
      with pass Inr following accepted show ?thesis
        by (simp add: chunkLoop.simps [of content offset tag])
    qed
  qed
qed

lemma traverseXml_no_CData:
  "CDataTagElement text \<notin> set (fst (traverseXml content))"
  unfolding traverseXml_def
  by (auto split: sum.splits simp: chunkLoop_no_CData)

text \<open>
  C2 says that every cdata chunk met by a traversal makes a \<open>CData\<close> event reach the
  visitor. \<open>cdata_xml\<close> has a cdata chunk between its start-element and its end-element
  chunk; \<open>handleCDataTag\<close> reads it and returns, and the visitor receives the start and
  the end element only.
\<close>

theorem traverseXml_cdata_xml:
  "traverseXml cdata_xml = ([StartXmlTagElement ''a'' Map.empty, EndXmlTagElement ''a''], None)"
  by (simp add: traverseXml_def cdata_xml_start chunkLoop.simps cdata_xml_passes resource_types)

subsection \<open>C3: the length byte of a UTF-8 pool entry\<close>

text \<open>
  In the UTF-8 branch \<open>readString\<close> reads one length byte, the byte at the entry's offset,
  and the decoded string has that many bytes, taken from two bytes behind the offset. The
  byte between them, the second length byte, is never read.
\<close>

lemma readString_utf8_length:
  assumes "readString content startStringsOffset True offset = Inr string"
    and "read_uint8 content (startStringsOffset + unat offset) = Inr (firstLengthByte, index)"
  shows "length string = unat firstLengthByte"
  using assms
  by (auto simp: readString_def readSpan_def split: sum.splits if_splits)

text \<open>
  C3 says that the payload length of a UTF-8 entry is the second length byte. On
  \<open>cafe_xml\<close>, whose entry is \<open>04 05 43 61 66 C3 A9 00\<close>, the source decodes the four
  bytes \<open>43 61 66 C3\<close>: the length is the first byte, the UTF-16 character count, and
  the two-byte character at the end is cut in half. The claim asks for the five bytes
  \<open>43 61 66 C3 A9\<close>.
\<close>

theorem readStrings_cafe_xml:
  "readStrings cafe_xml = Inr [[CHR ''C'', CHR ''a'', CHR ''f'', CHR 0xC3]]"
  by (simp add: decodes reads resource_types cafe_xml_def)

subsection \<open>C4: string indices outside the pool\<close>

text \<open>
  What the source does guard: a negative name or namespace index of a start-element or
  end-element chunk gives the empty string.
\<close>

lemma stringAtOrEmpty_negative:
  "index < 0 \<Longrightarrow> stringAtOrEmpty strings index = Inr []"
  by (simp add: stringAtOrEmpty_def)

text \<open>
  C4 says that an index outside the decoded pool is reported as a \<open>MalformedChunk\<close>
  failure and that \<open>-1\<close> gives the empty string in attribute records too. In the source
  the lookups are \<open>strings[i]\<close> on a \<open>std::vector\<close>, with no test of \<open>i\<close> against
  \<open>strings.size()\<close>, and \<open>handleAttributes\<close> reads its indices as \<open>uint32_t\<close>, without the
  test for a negative index that the element handlers have. On \<open>name_index_xml\<close> the
  start element's name index 1 is used on a pool of one string; on
  \<open>attribute_index_xml\<close> the attribute's name index \<open>-1\<close> is used as index
  \<open>4294967295\<close> on a pool of two strings. Both traversals leave the pool: no element
  reaches the visitor, and no \<open>InvalidXmlTagElement\<close> is made.
\<close>

theorem traverseXml_index_outside_pool:
  "traverseXml name_index_xml = ([], Some PoolIndexOutOfRange)
   \<and> traverseXml attribute_index_xml = ([], Some PoolIndexOutOfRange)"
  by (simp add: traverseXml_def name_index_xml_start name_index_xml_passes
      attribute_index_xml_start attribute_index_xml_passes chunkLoop.simps resource_types)

subsection \<open>C5: the end of the traversal\<close>

text \<open>
  What holds of the loop inside the buffer: a pass that reaches the next tag moves the
  cursor forward by eight bytes at least (\<open>chunkPass_advances\<close>), and a traversal that
  returns after iterating has read an end-namespace tag inside the buffer.
\<close>

lemma chunkPass_next_tag:
  assumes "chunkPass content offset tag = (accepted, Inr (tag', offset'))"
  shows "\<exists>i. read_uint16 content i = Inr (tag', i + 2)"
proof -
  from assms obtain i where "read_uint16 content i = Inr (tag', offset')"
    unfolding chunkPass_def by (auto split: sum.splits)
  with read_uint16_Inr [OF this] show ?thesis by auto
qed

lemma chunkLoop_returns_at_end_namespace:
  "chunkLoop content offset tag = (accepted, None)
   \<Longrightarrow> \<exists>i. read_uint16 content i = Inr (RES_XML_END_NAMESPACE_TYPE, i + 2)"
proof (induction content offset tag arbitrary: accepted rule: chunkLoop.induct)
  case (1 content offset tag)
  obtain first outcome where pass: "chunkPass content offset tag = (first, outcome)"
    by (cases "chunkPass content offset tag")
  show ?case
  proof (cases outcome)
    case (Inl e)
    with pass "1.prems" show ?thesis
      by (simp add: chunkLoop.simps [of content offset tag])
  next
    case (Inr following)
    obtain tag' offset' where following: "following = (tag', offset')"
      by (cases following)
    show ?thesis
    proof (cases "tag' \<noteq> RES_XML_END_NAMESPACE_TYPE")
      case True
      with pass Inr following "1.prems" obtain later where
        "chunkLoop content offset' tag' = (later, None)"
        by (auto simp: chunkLoop.simps [of content offset tag] split: prod.splits)
      from "1.IH" [OF pass [symmetric] Inr following [symmetric] True this]
      show ?thesis .
    next
      case False
      with pass Inr following chunkPass_next_tag [of content offset tag first tag' offset']
      show ?thesis by simp
    qed
  qed
qed

lemma traverseXml_returns:
  "traverseXml content = (accepted, None)
   \<Longrightarrow> getXmlChunkOffset content = Inr 0
     \<or> (\<exists>i. read_uint16 content i = Inr (RES_XML_END_NAMESPACE_TYPE, i + 2))"
  unfolding traverseXml_def
  by (auto split: sum.splits if_splits dest!: chunkLoop_returns_at_end_namespace)

text \<open>
  C5 says that the traversal of every buffer terminates within a number of passes and of
  bytes read that the buffer size bounds, also when the buffer has no end-namespace chunk.
  The only exit of the source's loop is the test \<open>tag != RES_XML_END_NAMESPACE_TYPE\<close>;
  the cursor is never compared with \<open>content_.size()\<close>. On \<open>unterminated_manifest\<close>,
  188 bytes long, the pass over the end-element chunk leaves the cursor at 188, and the
  next tag is read there, outside the buffer: the loop runs on beyond the buffer instead
  of ending.
\<close>

theorem traverseXml_unterminated_manifest:
  "traverseXml unterminated_manifest
   = ([StartXmlTagElement ''manifest'' [''package'' \<mapsto> ''com.example''],
       EndXmlTagElement ''manifest''], Some ReadPastEnd)"
  by (simp add: traverseXml_def unterminated_manifest_start chunkLoop.simps
      unterminated_manifest_passes resource_types)

subsection \<open>C6: the XML chunk offset\<close>

lemma getXmlChunkOffset_value:
  assumes "header_xmlMagicNumber content = Inr xmlMagicNumber"
    and "header_stringTableIdentifier content = Inr stringTableIdentifier"
    and "header_chunkSize content = Inr chunkSize"
  shows "getXmlChunkOffset content =
    Inr (if xmlMagicNumber = XML_IDENTIFIER \<and> stringTableIdentifier = XML_STRING_TABLE
            \<and> unat chunkSize < length content
         then unat chunkSize else 0)"
  using assms by (auto simp: getXmlChunkOffset_def)

text \<open>
  C6, as stated, fails. The claim says that \<open>getXmlChunkOffset\<close> returns 0 exactly when a
  magic word is wrong or the declared chunk size exceeds the buffer length. The guard of the
  source is \<open>content_.size() <= xmlHeader->chunkSize\<close>: a chunk size equal to the buffer
  length is refused as well. \<open>truncated_manifest\<close> has both magic words right and a chunk
  size of 76, which does not exceed its length of 76, and the offset returned is 0.
\<close>

theorem getXmlChunkOffset_equal_size_counterexample:
  "header_xmlMagicNumber truncated_manifest = Inr XML_IDENTIFIER
   \<and> header_stringTableIdentifier truncated_manifest = Inr XML_STRING_TABLE
   \<and> header_chunkSize truncated_manifest = Inr 76
   \<and> \<not> length truncated_manifest < unat (76 :: 32 word)
   \<and> getXmlChunkOffset truncated_manifest = Inr 0"
  using getXmlChunkOffset_value [OF truncated_manifest_header(1-3)]
  by (simp add: truncated_manifest_header)

text \<open>
  C6, amended: for a buffer whose header fields can be read, \<open>getXmlChunkOffset\<close> returns
  \<open>header.chunkSize\<close> whenever both magic words are valid and the chunk size is smaller
  than the buffer length, and it returns 0 exactly when a magic word is wrong, or the
  declared chunk size is at least the buffer length, or the declared chunk size is 0
  itself.
\<close>

theorem getXmlChunkOffset_amended:
  assumes "header_xmlMagicNumber content = Inr xmlMagicNumber"
    and "header_stringTableIdentifier content = Inr stringTableIdentifier"
    and "header_chunkSize content = Inr chunkSize"
  shows "(xmlMagicNumber = XML_IDENTIFIER \<and> stringTableIdentifier = XML_STRING_TABLE
            \<and> unat chunkSize < length content
          \<longrightarrow> getXmlChunkOffset content = Inr (unat chunkSize))
       \<and> (getXmlChunkOffset content = Inr 0
          \<longleftrightarrow> xmlMagicNumber \<noteq> XML_IDENTIFIER \<or> stringTableIdentifier \<noteq> XML_STRING_TABLE
              \<or> length content \<le> unat chunkSize \<or> chunkSize = 0)"
  unfolding getXmlChunkOffset_value [OF assms]
  by (auto simp: unat_eq_0)

theorem getXmlChunkOffset_amended_witness:
  "getXmlChunkOffset manifest_xml = Inr 76 \<and> getXmlChunkOffset text_xml = Inr 0"
proof -
  have text_xml_header:
    "header_xmlMagicNumber text_xml = Inr 0x6D783F3C"
    "header_stringTableIdentifier text_xml = Inr 0x7372"
    "header_chunkSize text_xml = Inr 0x31223D6E"
    by (simp_all add: reads text_xml_def)
  from getXmlChunkOffset_amended [OF manifest_xml_header(1-3)]
  have "getXmlChunkOffset manifest_xml = Inr 76"
    by (simp add: manifest_xml_header)
  moreover from getXmlChunkOffset_amended [OF text_xml_header]
  have "getXmlChunkOffset text_xml = Inr 0"
    by (simp add: resource_types)
  ultimately show ?thesis by simp
qed

subsection \<open>C7: the table of attribute values\<close>

text \<open>
  C7: the decoder maps the type tag, the 32-bit raw value and the raw-value-string index of
  an attribute record to the string of the specification's table. \<open>NULL\<close> gives
  \<open><undefined>\<close> for a raw value of 0 and \<open><empty>\<close> otherwise; \<open>REFERENCE\<close>,
  \<open>ATTRIBUTE\<close> and \<open>DYNAMIC_REFERENCE\<close> give \<open>@res/0x\<close>, \<open>@attr/0x\<close> and
  \<open>@dyn/0x\<close> followed by the raw value in eight hexadecimal digits; \<open>STRING\<close> gives the
  pool string at the raw-value index, for an index inside the pool; \<open>FLOAT\<close>,
  \<open>DIMENSION\<close> and \<open>FRACTION\<close> give the empty string; \<open>INT_DEC\<close> gives the raw 32
  bits in decimal (read as a signed number, as \<open>%d\<close> prints them); \<open>INT_HEX\<close> gives
  \<open>0x\<close> and eight hexadecimal digits; \<open>INT_BOOLEAN\<close> gives \<open>true\<close> for
  \<open>0xFFFFFFFF\<close>, \<open>false\<close> for 0 and \<open>unknown\<close> for any other raw value; every
  other type tag gives \<open>unknown\<close>.
\<close>

theorem attributeValueOf_table:
  "attributeValueOf strings TYPE_NULL raw index
     = Inr (if raw = 0 then ''<undefined>'' else ''<empty>'')
   \<and> attributeValueOf strings TYPE_REFERENCE raw index = Inr (''@res/0x'' @ format_08X raw)
   \<and> attributeValueOf strings TYPE_ATTRIBUTE raw index = Inr (''@attr/0x'' @ format_08X raw)
   \<and> (unat index < length strings
        \<longrightarrow> attributeValueOf strings TYPE_STRING raw index = Inr (strings ! unat index))
   \<and> attributeValueOf strings TYPE_FLOAT raw index = Inr []
   \<and> attributeValueOf strings TYPE_DIMENSION raw index = Inr []
   \<and> attributeValueOf strings TYPE_FRACTION raw index = Inr []
   \<and> attributeValueOf strings TYPE_DYNAMIC_REFERENCE raw index = Inr (''@dyn/0x'' @ format_08X raw)
   \<and> attributeValueOf strings TYPE_INT_DEC raw index = Inr (format_d raw)
   \<and> attributeValueOf strings TYPE_INT_HEX raw index = Inr (''0x'' @ format_08X raw)
   \<and> attributeValueOf strings TYPE_INT_BOOLEAN raw index
       = Inr (if raw = 0xFFFFFFFF then ''true'' else if raw = 0 then ''false'' else ''unknown'')
   \<and> (attributeValueType \<notin> {TYPE_NULL, TYPE_REFERENCE, TYPE_ATTRIBUTE, TYPE_STRING, TYPE_FLOAT,
          TYPE_DIMENSION, TYPE_FRACTION, TYPE_DYNAMIC_REFERENCE, TYPE_INT_DEC, TYPE_INT_HEX,
          TYPE_INT_BOOLEAN}
        \<longrightarrow> attributeValueOf strings attributeValueType raw index = Inr ''unknown'')"
  by (simp add: attributeValueOf_def stringAt_def resource_types)

theorem attributeValueOf_table_witness:
  "attributeValueOf [''manifest'', ''package'', ''com.example''] TYPE_NULL 0xFFFFFFFF 2 = Inr ''<empty>''
   \<and> attributeValueOf [''manifest'', ''package'', ''com.example''] TYPE_REFERENCE 0xFFFFFFFF 2
       = Inr ''@res/0xFFFFFFFF''
   \<and> attributeValueOf [''manifest'', ''package'', ''com.example''] TYPE_ATTRIBUTE 0xFFFFFFFF 2
       = Inr ''@attr/0xFFFFFFFF''
   \<and> attributeValueOf [''manifest'', ''package'', ''com.example''] TYPE_STRING 0xFFFFFFFF 2
       = Inr ''com.example''
   \<and> attributeValueOf [''manifest'', ''package'', ''com.example''] TYPE_INT_DEC 0xFFFFFFFF 2 = Inr ''-1''
   \<and> attributeValueOf [''manifest'', ''package'', ''com.example''] TYPE_INT_HEX 0xFFFFFFFF 2
       = Inr ''0xFFFFFFFF''
   \<and> attributeValueOf [''manifest'', ''package'', ''com.example''] TYPE_INT_BOOLEAN 0xFFFFFFFF 2
       = Inr ''true''
   \<and> attributeValueOf [''manifest'', ''package'', ''com.example''] 0x1C 0xFFFFFFFF 2 = Inr ''unknown''"
  using attributeValueOf_table
    [of "[''manifest'', ''package'', ''com.example'']" "0xFFFFFFFF" 2 "0x1C"]
  by (simp add: format_08X_def format_d_def digit_def decimal.simps resource_types)

subsection \<open>C8: a chunk offset of zero\<close>

text \<open>
  C8: if the XML chunk offset computed by \<open>getXmlChunkOffset\<close> is zero, the traversal
  hands the visitor exactly one element, \<open>InvalidXmlTagElement("chunk offset is zero")\<close>,
  and returns: no chunk is iterated and no other element is dispatched.
\<close>

theorem traverseXml_chunk_offset_zero:
  "getXmlChunkOffset content = Inr 0
   \<Longrightarrow> traverseXml content = ([InvalidXmlTagElement ''chunk offset is zero''], None)"
  by (simp add: traverseXml_def)

theorem traverseXml_chunk_offset_zero_witness:
  "getXmlChunkOffset text_xml = Inr 0
   \<and> traverseXml text_xml = ([InvalidXmlTagElement ''chunk offset is zero''], None)"
proof -
  have zero: "getXmlChunkOffset text_xml = Inr 0"
    by (simp add: getXmlChunkOffset_def reads resource_types text_xml_def)
  from traverseXml_chunk_offset_zero [OF zero] zero show ?thesis by simp
qed

subsection \<open>C9: the decoded pool has one string per offset entry\<close>

lemma for_each_Inr_iff:
  "for_each f xs = Inr ys
   \<longleftrightarrow> length ys = length xs \<and> (\<forall>i < length xs. f (xs ! i) = Inr (ys ! i))"
proof (induction xs arbitrary: ys)
  case Nil
  then show ?case by auto
next
  case (Cons x xs)
  show ?case
  proof (cases ys)
    case Nil
    then show ?thesis by (auto split: sum.splits)
  next
    case (Cons y ys')
    have "(\<forall>i < Suc (length xs). f ((x # xs) ! i) = Inr ((y # ys') ! i))
          \<longleftrightarrow> f x = Inr y \<and> (\<forall>i < length xs. f (xs ! i) = Inr (ys' ! i))"
      by (auto simp: less_Suc_eq_0_disj)
    with Cons Cons.IH [of ys'] show ?thesis
      by (auto split: sum.splits)
  qed
qed

lemma readStrings_valid_header:
  assumes "header_xmlMagicNumber content = Inr XML_IDENTIFIER"
    and "header_stringTableIdentifier content = Inr XML_STRING_TABLE"
    and "header_numStrings content = Inr numStrings"
    and "for_each (readStringOffset content) [0 ..< unat numStrings] = Inr stringOffsets"
    and "header_flags content = Inr flags"
  shows "readStrings content =
    for_each (readString content (sizeof_BinaryXmlHeader + length stringOffsets * 4)
                (flags AND RES_FLAG_UTF8 = RES_FLAG_UTF8)) stringOffsets"
  using assms by (simp add: readStrings_def)

lemma readStrings_Inr_fields:
  assumes "header_xmlMagicNumber content = Inr XML_IDENTIFIER"
    and "header_stringTableIdentifier content = Inr XML_STRING_TABLE"
    and "readStrings content = Inr strings"
  obtains numStrings stringOffsets flags where
    "header_numStrings content = Inr numStrings"
    "for_each (readStringOffset content) [0 ..< unat numStrings] = Inr stringOffsets"
    "header_flags content = Inr flags"
  using assms by (auto simp: readStrings_def split: sum.splits)

text \<open>
  C9: for a buffer with the valid XML magic and the valid string-table identifier, the
  sequence that \<open>readStrings\<close> returns has \<open>header.numStrings\<close> elements, and element
  \<open>i\<close> is the string decoded at the \<open>i\<close>-th entry of the offset table, for every
  \<open>i < numStrings\<close>. The statement is an equivalence: \<open>readStrings\<close> returns a sequence
  exactly when the string count and the flags can be read and every entry of the offset
  table can be read and decoded inside the buffer, and the sequence is then the one made
  of these decoded strings.
\<close>

theorem readStrings_length_and_entries:
  assumes "header_xmlMagicNumber content = Inr XML_IDENTIFIER"
    and "header_stringTableIdentifier content = Inr XML_STRING_TABLE"
  shows "readStrings content = Inr strings
    \<longleftrightarrow> (\<exists>numStrings flags.
          header_numStrings content = Inr numStrings
        \<and> header_flags content = Inr flags
        \<and> length strings = unat numStrings
        \<and> (\<forall>i < unat numStrings. \<exists>offset.
              readStringOffset content i = Inr offset
            \<and> readString content (sizeof_BinaryXmlHeader + unat numStrings * 4)
                  (flags AND RES_FLAG_UTF8 = RES_FLAG_UTF8) offset = Inr (strings ! i)))"
proof
  assume returned: "readStrings content = Inr strings"
  from readStrings_Inr_fields [OF assms returned]
  obtain numStrings stringOffsets flags where
    n: "header_numStrings content = Inr numStrings" and
    offsets: "for_each (readStringOffset content) [0 ..< unat numStrings] = Inr stringOffsets" and
    flags: "header_flags content = Inr flags"
    by blast
  from offsets have
    len: "length stringOffsets = unat numStrings" and
    entry: "\<And>i. i < unat numStrings \<Longrightarrow> readStringOffset content i = Inr (stringOffsets ! i)"
    by (auto simp: for_each_Inr_iff)
  from returned readStrings_valid_header [OF assms n offsets flags]
  have "for_each (readString content (sizeof_BinaryXmlHeader + length stringOffsets * 4)
          (flags AND RES_FLAG_UTF8 = RES_FLAG_UTF8)) stringOffsets = Inr strings"
    by simp
  then have "length strings = unat numStrings"
    and "\<And>i. i < unat numStrings \<Longrightarrow>
          readString content (sizeof_BinaryXmlHeader + unat numStrings * 4)
            (flags AND RES_FLAG_UTF8 = RES_FLAG_UTF8) (stringOffsets ! i) = Inr (strings ! i)"
    by (auto simp: for_each_Inr_iff len)
  with n flags entry
  show "\<exists>numStrings flags.
          header_numStrings content = Inr numStrings
        \<and> header_flags content = Inr flags
        \<and> length strings = unat numStrings
        \<and> (\<forall>i < unat numStrings. \<exists>offset.
              readStringOffset content i = Inr offset
            \<and> readString content (sizeof_BinaryXmlHeader + unat numStrings * 4)
                  (flags AND RES_FLAG_UTF8 = RES_FLAG_UTF8) offset = Inr (strings ! i))"
    by blast
next
  assume "\<exists>numStrings flags.
          header_numStrings content = Inr numStrings
        \<and> header_flags content = Inr flags
        \<and> length strings = unat numStrings
        \<and> (\<forall>i < unat numStrings. \<exists>offset.
              readStringOffset content i = Inr offset
            \<and> readString content (sizeof_BinaryXmlHeader + unat numStrings * 4)
                  (flags AND RES_FLAG_UTF8 = RES_FLAG_UTF8) offset = Inr (strings ! i))"
  then obtain numStrings flags where
    n: "header_numStrings content = Inr numStrings" and
    flags: "header_flags content = Inr flags" and
    len: "length strings = unat numStrings" and
    entries: "\<forall>i < unat numStrings. \<exists>offset.
              readStringOffset content i = Inr offset
            \<and> readString content (sizeof_BinaryXmlHeader + unat numStrings * 4)
                  (flags AND RES_FLAG_UTF8 = RES_FLAG_UTF8) offset = Inr (strings ! i)"
    by blast
  from entries obtain offsetOf where
    offsetOf: "\<And>i. i < unat numStrings \<Longrightarrow>
        readStringOffset content i = Inr (offsetOf i)
      \<and> readString content (sizeof_BinaryXmlHeader + unat numStrings * 4)
            (flags AND RES_FLAG_UTF8 = RES_FLAG_UTF8) (offsetOf i) = Inr (strings ! i)"
    by metis
  define stringOffsets where "stringOffsets = map offsetOf [0 ..< unat numStrings]"
  have offsets: "for_each (readStringOffset content) [0 ..< unat numStrings] = Inr stringOffsets"
    by (simp add: for_each_Inr_iff stringOffsets_def offsetOf)
  have "for_each (readString content (sizeof_BinaryXmlHeader + length stringOffsets * 4)
          (flags AND RES_FLAG_UTF8 = RES_FLAG_UTF8)) stringOffsets = Inr strings"
    by (simp add: for_each_Inr_iff stringOffsets_def offsetOf len)
  with readStrings_valid_header [OF assms n offsets flags]
  show "readStrings content = Inr strings"
    by simp
qed

theorem readStrings_length_and_entries_witness:
  "readStrings manifest_xml = Inr [''manifest'', ''package'', ''com.example'']
   \<and> header_numStrings manifest_xml = Inr 3
   \<and> (\<exists>numStrings flags.
          header_numStrings manifest_xml = Inr numStrings
        \<and> header_flags manifest_xml = Inr flags
        \<and> length [''manifest'', ''package'', ''com.example''] = unat numStrings
        \<and> (\<forall>i < unat numStrings. \<exists>offset.
              readStringOffset manifest_xml i = Inr offset
            \<and> readString manifest_xml (sizeof_BinaryXmlHeader + unat numStrings * 4)
                  (flags AND RES_FLAG_UTF8 = RES_FLAG_UTF8) offset
                = Inr ([''manifest'', ''package'', ''com.example''] ! i)))"
  using readStrings_length_and_entries [OF manifest_xml_header(1,2),
      of "[''manifest'', ''package'', ''com.example'']"]
    manifest_xml_strings manifest_xml_header(4)
  by simp

subsection \<open>C10: attribute records with the same name\<close>

lemma attributeNameAt_shift:
  "attributeNameAt contents strings (recordsOffset + 20) k
   = attributeNameAt contents strings recordsOffset (Suc k)"
  by (simp add: attributeNameAt_def add.assoc)

lemma attributeValueAt_shift:
  "attributeValueAt contents strings (recordsOffset + 20) k
   = attributeValueAt contents strings recordsOffset (Suc k)"
  by (simp add: attributeValueAt_def add.assoc)

lemma attributesLoop_Suc_Inr:
  assumes "attributesLoop (Suc n) contents strings offset attributes0 = Inr (attributes, offset')"
  obtains fields attributes1 where
    "readAttribute contents offset = Inr (fields, offset + 20)"
    "assignAttribute strings fields attributes0 = Inr attributes1"
    "attributesLoop n contents strings (offset + 20) attributes1 = Inr (attributes, offset')"
proof -
  from assms obtain fields offset1 attributes1 where
    r: "readAttribute contents offset = Inr (fields, offset1)" and
    a: "assignAttribute strings fields attributes0 = Inr attributes1" and
    l: "attributesLoop n contents strings offset1 attributes1 = Inr (attributes, offset')"
    by (auto split: sum.splits)
  from readAttribute_Inr [OF r] r a l that show thesis by simp
qed

lemma assignAttribute_cases:
  assumes "readAttribute contents offset = Inr (fields, offset1)"
    and "assignAttribute strings fields attributes0 = Inr attributes1"
  shows "\<exists>name. attributeNameAt contents strings offset 0 = Inr name
      \<and> (if name = [] then attributes1 = attributes0
          else \<exists>v. attributeValueAt contents strings offset 0 = Inr v
                 \<and> attributes1 = attributes0(name \<mapsto> v))"
proof -
  obtain attributeNameIndex attributeValueIndex attributeValueType attributeResourceId where
    fields: "fields = (attributeNameIndex, attributeValueIndex, attributeValueType, attributeResourceId)"
    by (cases fields)
  from assms(2) obtain name where
    name: "stringAt strings (unat attributeNameIndex) = Inr name"
    unfolding assignAttribute_def fields by (auto simp: and_then_Inr_iff)
  have nameAt: "attributeNameAt contents strings offset 0 = Inr name"
    using assms(1) name by (simp add: attributeNameAt_def fields)
  have valueAt: "attributeValueAt contents strings offset 0
      = attributeValueOf strings attributeValueType attributeResourceId attributeValueIndex"
    using assms(1) by (simp add: attributeValueAt_def fields)
  show ?thesis
  proof (cases "name = []")
    case True
    with assms(2) name have "attributes1 = attributes0"
      by (simp add: assignAttribute_def fields)
    with nameAt True show ?thesis by simp
  next
    case False
    with assms(2) name obtain v where
      "attributeValueOf strings attributeValueType attributeResourceId attributeValueIndex = Inr v"
      "attributes1 = attributes0(name \<mapsto> v)"
      by (auto simp: assignAttribute_def fields and_then_Inr_iff)
    with nameAt valueAt False show ?thesis by simp
  qed
qed

text \<open>Records under other names leave the entry of a name as it is.\<close>

lemma attributesLoop_other_names:
  assumes "attributesLoop n contents strings offset attributes0 = Inr (attributes, offset')"
    and "\<forall>k < n. attributeNameAt contents strings offset k \<noteq> Inr name"
  shows "attributes name = attributes0 name"
  using assms
proof (induction n arbitrary: offset attributes0)
  case 0
  then show ?case by simp
next
  case (Suc n)
  from Suc.prems(1) obtain fields attributes1 where
    r: "readAttribute contents offset = Inr (fields, offset + 20)" and
    a: "assignAttribute strings fields attributes0 = Inr attributes1" and
    l: "attributesLoop n contents strings (offset + 20) attributes1 = Inr (attributes, offset')"
    by (rule attributesLoop_Suc_Inr)
  from Suc.prems(2) have head: "attributeNameAt contents strings offset 0 \<noteq> Inr name"
    and rest: "\<forall>k < n. attributeNameAt contents strings (offset + 20) k \<noteq> Inr name"
    by (auto simp: attributeNameAt_shift)
  from assignAttribute_cases [OF r a] head have "attributes1 name = attributes0 name"
    by (auto split: if_splits)
  with Suc.IH [OF l rest] show ?case by simp
qed

text \<open>The entry of a name is the value of the last record that carries the name.\<close>

lemma attributesLoop_last_record:
  assumes "attributesLoop n contents strings offset attributes0 = Inr (attributes, offset')"
    and "j < n"
    and "attributeNameAt contents strings offset j = Inr name"
    and "name \<noteq> []"
    and "\<forall>k. j < k \<and> k < n \<longrightarrow> attributeNameAt contents strings offset k \<noteq> Inr name"
  shows "\<exists>v. attributeValueAt contents strings offset j = Inr v \<and> attributes name = Some v"
  using assms
proof (induction n arbitrary: offset attributes0 j)
  case 0
  then show ?case by simp
next
  case (Suc n)
  from Suc.prems(1) obtain fields attributes1 where
    r: "readAttribute contents offset = Inr (fields, offset + 20)" and
    a: "assignAttribute strings fields attributes0 = Inr attributes1" and
    l: "attributesLoop n contents strings (offset + 20) attributes1 = Inr (attributes, offset')"
    by (rule attributesLoop_Suc_Inr)
  show ?case
  proof (cases j)
    case 0
    with Suc.prems(3,4) assignAttribute_cases [OF r a]
    obtain v where v: "attributeValueAt contents strings offset 0 = Inr v"
      and a1: "attributes1 = attributes0(name \<mapsto> v)"
      by auto
    from Suc.prems(5) 0
    have "\<forall>k < n. attributeNameAt contents strings (offset + 20) k \<noteq> Inr name"
      by (auto simp: attributeNameAt_shift)
    from attributesLoop_other_names [OF l this] a1 v 0 show ?thesis by simp
  next
    case (Suc j')
    with Suc.prems have "j' < n"
      and "attributeNameAt contents strings (offset + 20) j' = Inr name"
      and "\<forall>k. j' < k \<and> k < n \<longrightarrow> attributeNameAt contents strings (offset + 20) k \<noteq> Inr name"
      by (auto simp: attributeNameAt_shift)
    from Suc.IH [OF l this(1,2) Suc.prems(4) this(3)] Suc show ?thesis
      by (simp add: attributeValueAt_shift)
  qed
qed

text \<open>Every key of the map is a key of the initial map or the name of a record.\<close>

lemma attributesLoop_dom:
  assumes "attributesLoop n contents strings offset attributes0 = Inr (attributes, offset')"
  shows "dom attributes
    \<subseteq> dom attributes0 \<union> {name. \<exists>k < n. attributeNameAt contents strings offset k = Inr name}"
  using assms
proof (induction n arbitrary: offset attributes0)
  case 0
  then show ?case by simp
next
  case (Suc n)
  from Suc.prems obtain fields attributes1 where
    r: "readAttribute contents offset = Inr (fields, offset + 20)" and
    a: "assignAttribute strings fields attributes0 = Inr attributes1" and
    l: "attributesLoop n contents strings (offset + 20) attributes1 = Inr (attributes, offset')"
    by (rule attributesLoop_Suc_Inr)
  from assignAttribute_cases [OF r a]
  have first: "dom attributes1
    \<subseteq> dom attributes0 \<union> {name. attributeNameAt contents strings offset 0 = Inr name}"
    by (auto split: if_splits)
  have later: "{name. \<exists>k < n. attributeNameAt contents strings (offset + 20) k = Inr name}
    \<subseteq> {name. \<exists>k < Suc n. attributeNameAt contents strings offset k = Inr name}"
    by (auto simp: attributeNameAt_shift)
  have "{name. attributeNameAt contents strings offset 0 = Inr name}
    \<subseteq> {name. \<exists>k < Suc n. attributeNameAt contents strings offset k = Inr name}"
    by auto
  with Suc.IH [OF l] first later show ?case by blast
qed

text \<open>
  With the marker in place, \<open>handleAttributes\<close> is the loop over \<open>attributesCount\<close>
  records, the first of them twelve bytes behind the marker, started on the empty map.
\<close>

lemma handleAttributes_records:
  assumes "handleAttributes contents strings contentsOffset = Inr (attributes, contentsOffset')"
    and "read_uint32 contents contentsOffset = Inr (XML_ATTRS_MARKER, markerEnd)"
    and "read_uint32 contents (contentsOffset + 4) = Inr (attributesCount, countEnd)"
  shows "attributesLoop (unat attributesCount) contents strings (contentsOffset + 12) Map.empty
    = Inr (attributes, contentsOffset')"
proof -
  from read_uint32_Inr [OF assms(2)] have markerEnd: "markerEnd = contentsOffset + 4"
    by simp
  from read_uint32_Inr [OF assms(3)] have countEnd: "countEnd = contentsOffset + 8"
    by simp
  from assms(1) obtain unused unusedEnd where
    unused: "read_uint32 contents (contentsOffset + 8) = Inr (unused, unusedEnd)" and
    loop: "attributesLoop (unat attributesCount) contents strings unusedEnd Map.empty
      = Inr (attributes, contentsOffset')"
    unfolding handleAttributes_def
    by (auto simp: assms(2,3) markerEnd countEnd and_then_Inr_iff)
  from read_uint32_Inr [OF unused] loop show ?thesis by (simp add: add.commute)
qed

text \<open>A record whose name is the empty string is skipped: the map never has the empty key.\<close>

lemma attributesLoop_no_empty_name:
  assumes "attributesLoop n contents strings offset attributes0 = Inr (attributes, offset')"
    and "attributes0 [] = None"
  shows "attributes [] = None"
  using assms
proof (induction n arbitrary: offset attributes0)
  case 0
  then show ?case by simp
next
  case (Suc n)
  from Suc.prems(1) obtain fields attributes1 where
    r: "readAttribute contents offset = Inr (fields, offset + 20)" and
    a: "assignAttribute strings fields attributes0 = Inr attributes1" and
    l: "attributesLoop n contents strings (offset + 20) attributes1 = Inr (attributes, offset')"
    by (rule attributesLoop_Suc_Inr)
  from assignAttribute_cases [OF r a] Suc.prems(2) have "attributes1 [] = None"
    by (auto split: if_splits)
  from Suc.IH [OF l this] show ?case .
qed

lemma handleAttributes_no_empty_name:
  assumes "handleAttributes contents strings contentsOffset = Inr (attributes, contentsOffset')"
  shows "attributes [] = None"
  using assms unfolding handleAttributes_def
  by (auto simp: and_then_Inr_iff split: if_splits dest: attributesLoop_no_empty_name)

text \<open>
  C10, as stated, fails. The claim speaks of any two records whose names decode to the same
  string. A record whose name decodes to the empty string is skipped by the source
  (\<open>if (attributeName.empty()) { ...; continue; }\<close>): in \<open>empty_name_xml\<close> both records
  of the start element have the empty name, the last of them has the value \<open>two\<close>, and
  the attribute map of the Start element is empty: it carries no value of either record.
\<close>

theorem handleAttributes_empty_name_counterexample:
  "readStrings empty_name_xml = Inr [''a'', [], ''one'', ''two'']
   \<and> read_uint32 empty_name_xml 120 = Inr (XML_ATTRS_MARKER, 124)
   \<and> read_uint32 empty_name_xml (120 + 4) = Inr (2, 128)
   \<and> attributeNameAt empty_name_xml [''a'', [], ''one'', ''two''] (120 + 12) 0 = Inr []
   \<and> attributeNameAt empty_name_xml [''a'', [], ''one'', ''two''] (120 + 12) 1 = Inr []
   \<and> attributeValueAt empty_name_xml [''a'', [], ''one'', ''two''] (120 + 12) 1 = Inr ''two''
   \<and> handleAttributes empty_name_xml [''a'', [], ''one'', ''two''] 120 = Inr (Map.empty, 172)
   \<and> (Map.empty :: attributes) [] \<noteq> Some ''two''
   \<and> traverseXml empty_name_xml
       = ([StartXmlTagElement ''a'' Map.empty, EndXmlTagElement ''a''], None)"
  by (simp add: empty_name_xml_strings empty_name_xml_block empty_name_xml_attributes
      empty_name_xml_traverse attributeNameAt_def attributeValueAt_def attributeValueOf_def
      stringAt_def resource_types)

text \<open>
  C10, amended: if two records of a start-element's attribute block have names that decode
  to the same non-empty string, the attribute map carries under that name the value of the
  last such record, and the map has fewer entries than the block has records. (Records
  whose name decodes to the empty string are skipped and leave no entry.)
\<close>

theorem handleAttributes_last_record_wins:
  assumes "handleAttributes contents strings contentsOffset = Inr (attributes, contentsOffset')"
    and "read_uint32 contents contentsOffset = Inr (XML_ATTRS_MARKER, markerEnd)"
    and "read_uint32 contents (contentsOffset + 4) = Inr (attributesCount, countEnd)"
    and "i < j" and "j < unat attributesCount"
    and "attributeNameAt contents strings (contentsOffset + 12) i = Inr name"
    and "attributeNameAt contents strings (contentsOffset + 12) j = Inr name"
    and "name \<noteq> []"
    and "\<forall>k. j < k \<and> k < unat attributesCount
          \<longrightarrow> attributeNameAt contents strings (contentsOffset + 12) k \<noteq> Inr name"
  shows "(\<exists>v. attributeValueAt contents strings (contentsOffset + 12) j = Inr v
            \<and> attributes name = Some v)
       \<and> card (dom attributes) < unat attributesCount"
proof
  note loop = handleAttributes_records [OF assms(1-3)]
  from attributesLoop_last_record [OF loop assms(5,7,8,9)]
  show "\<exists>v. attributeValueAt contents strings (contentsOffset + 12) j = Inr v
            \<and> attributes name = Some v" .
  define n where "n = unat attributesCount"
  define nameOf where "nameOf k =
    (case attributeNameAt contents strings (contentsOffset + 12) k of Inl e \<Rightarrow> [] | Inr s \<Rightarrow> s)" for k
  have "dom attributes \<subseteq> nameOf ` ({..<n} - {i})"
  proof
    fix x assume "x \<in> dom attributes"
    with attributesLoop_dom [OF loop] obtain k where
      k: "k < n" "attributeNameAt contents strings (contentsOffset + 12) k = Inr x"
      by (auto simp: n_def)
    show "x \<in> nameOf ` ({..<n} - {i})"
    proof (cases "k = i")
      case True
      with k assms(6) have "x = name" by simp
      with assms(7) have "nameOf j = x" by (simp add: nameOf_def)
      moreover from assms(4,5) have "j \<in> {..<n} - {i}" by (simp add: n_def)
      ultimately show ?thesis by blast
    next
      case False
      from k have "nameOf k = x" by (simp add: nameOf_def)
      moreover from False k have "k \<in> {..<n} - {i}" by simp
      ultimately show ?thesis by blast
    qed
  qed
  then have "card (dom attributes) \<le> card (nameOf ` ({..<n} - {i}))"
    by (intro card_mono) simp_all
  also have "\<dots> \<le> card ({..<n} - {i})"
    by (rule card_image_le) simp
  also from assms(4,5) have "\<dots> < n"
    by (simp add: n_def)
  finally show "card (dom attributes) < unat attributesCount"
    by (simp add: n_def)
qed

theorem handleAttributes_last_record_wins_witness:
  "handleAttributes same_name_xml [''a'', ''label'', ''one'', ''two'', ''urn:x'', ''urn:y''] 148
     = Inr ([''label'' \<mapsto> ''two''], 200)
   \<and> attributeNameAt same_name_xml [''a'', ''label'', ''one'', ''two'', ''urn:x'', ''urn:y''] 160 0
       = Inr ''label''
   \<and> attributeNameAt same_name_xml [''a'', ''label'', ''one'', ''two'', ''urn:x'', ''urn:y''] 160 1
       = Inr ''label''
   \<and> attributeValueAt same_name_xml [''a'', ''label'', ''one'', ''two'', ''urn:x'', ''urn:y''] 160 0
       = Inr ''one''
   \<and> attributeValueAt same_name_xml [''a'', ''label'', ''one'', ''two'', ''urn:x'', ''urn:y''] 160 1
       = Inr ''two''
   \<and> card (dom [''label'' \<mapsto> ''two'']) < unat (2 :: 32 word)"
proof -
  let ?strings = "[''a'', ''label'', ''one'', ''two'', ''urn:x'', ''urn:y'']"
  have "attributesLoop (Suc (Suc 0)) same_name_xml ?strings 160 Map.empty
      = Inr ([''label'' \<mapsto> ''two''], 200)"
    by (simp add: same_name_xml_block assignAttribute_def attributeValueOf_def stringAt_def
        resource_types)
  then have loop: "attributesLoop 2 same_name_xml ?strings 160 Map.empty
      = Inr ([''label'' \<mapsto> ''two''], 200)"
    by (simp only: numeral_2_eq_2)
  have block: "handleAttributes same_name_xml ?strings 148 = Inr ([''label'' \<mapsto> ''two''], 200)"
    by (simp add: handleAttributes_def same_name_xml_block loop)
  have marker: "read_uint32 same_name_xml 148 = Inr (XML_ATTRS_MARKER, 152)"
    and count: "read_uint32 same_name_xml (148 + 4) = Inr (2, 156)"
    by (simp_all add: same_name_xml_block)
  have names: "attributeNameAt same_name_xml ?strings (148 + 12) 0 = Inr ''label''"
    "attributeNameAt same_name_xml ?strings (148 + 12) 1 = Inr ''label''"
    by (simp_all add: attributeNameAt_def same_name_xml_block stringAt_def)
  have "values": "attributeValueAt same_name_xml ?strings 160 0 = Inr ''one''"
    "attributeValueAt same_name_xml ?strings 160 1 = Inr ''two''"
    by (simp_all add: attributeValueAt_def same_name_xml_block attributeValueOf_def stringAt_def
        resource_types)
  have last: "\<forall>k. 1 < k \<and> k < unat (2 :: 32 word)
      \<longrightarrow> attributeNameAt same_name_xml ?strings (148 + 12) k \<noteq> Inr ''label''"
    by auto
  from handleAttributes_last_record_wins [OF block marker count _ _ names _ last]
  have "card (dom [''label'' \<mapsto> ''two'']) < unat (2 :: 32 word)"
    by simp
  with block names "values" show ?thesis by simp
qed

end
